theory Spec2Isabelle
  imports Complex_Main
begin

section \<open>Values, errors and the Python operations the server uses\<close>

text \<open>
  The server (\<^verbatim>\<open>model/ml_api.py\<close>) reads a JSON body, computes on Python
  values and answers with a status and a JSON object. A JSON value is modelled by
  \<open>json\<close>; a Python dict is an association list, looked up by \<open>map_of\<close> (the first
  binding of a key is the dict's).

  A Python \<^verbatim>\<open>float\<close> is modelled by the \<open>real\<close> it denotes, and \<^verbatim>\<open>int\<close> and
  \<^verbatim>\<open>float\<close> JSON numbers are one constructor \<open>JNum\<close>: \<open>JNum r\<close> is the \<^verbatim>\<open>int\<close>
  \<open>r\<close> or the finite \<^verbatim>\<open>float\<close> \<open>r\<close>. Comparisons are those of the reals. In the loan
  endpoints the sums, differences, products, quotients and powers of floats are
  operations of the runtime (each rounds its result), parameters of the model like the
  parsing of strings: a theorem about these endpoints holds for every such arithmetic,
  so for the one of binary floating point. In the fraud endpoints, where a score is a
  sum of a few decimal constants, the sums are exact. The special values \<^verbatim>\<open>inf\<close> and
  \<^verbatim>\<open>nan\<close> are outside the model; the exception \<^verbatim>\<open>OverflowError\<close> of the conversion
  of an \<^verbatim>\<open>int\<close> too large for a \<^verbatim>\<open>float\<close> is inside it. A Python \<^verbatim>\<open>str\<close> is
  modelled by \<open>string\<close>, the list of its UTF-8 bytes.
\<close>

datatype json =
    JNull
  | JBool bool
  | JNum real
  | JStr string
  | JArr "json list"
  | JObj "(string \<times> json) list"

type_synonym dict = "(string \<times> json) list"

text \<open>Every exception of the source is a value; \<open>ModelError\<close> is whatever a model
  object raises.\<close>

datatype error =
  TypeError | ValueError | AttributeError | KeyError | ZeroDivisionError | OverflowError
  | ModelError

type_synonym response = "nat \<times> dict"

text \<open>\<^verbatim>\<open>float(s)\<close> and \<^verbatim>\<open>int(s)\<close> on a string belong to the Python runtime;
  they are taken as parameters (\<open>None\<close> is \<^verbatim>\<open>ValueError\<close>). So is \<^verbatim>\<open>s.lower()\<close> on a
  string that is not pure ASCII: the Unicode case mapping is the runtime's. So are the
  float operations \<^verbatim>\<open>x + y\<close>, \<^verbatim>\<open>x - y\<close>, \<^verbatim>\<open>x * y\<close>, \<^verbatim>\<open>x / y\<close> (for
  \<open>y\<close> not zero) and \<^verbatim>\<open>pow(x, n)\<close> for an \<^verbatim>\<open>int\<close> \<open>n\<close> that converts to a
  float, which raises \<^verbatim>\<open>OverflowError\<close> or \<^verbatim>\<open>ZeroDivisionError\<close> or returns a
  float.\<close>

record runtime =
  str_float :: "string \<Rightarrow> real option"
  str_int :: "string \<Rightarrow> int option"
  unicode_lower :: "string \<Rightarrow> string"
  fadd :: "real \<Rightarrow> real \<Rightarrow> real"
  fsub :: "real \<Rightarrow> real \<Rightarrow> real"
  fmul :: "real \<Rightarrow> real \<Rightarrow> real"
  fdiv :: "real \<Rightarrow> real \<Rightarrow> real"
  fpow :: "real \<Rightarrow> int \<Rightarrow> error + real"

definition try_bind :: "error + 'a \<Rightarrow> ('a \<Rightarrow> error + 'b) \<Rightarrow> error + 'b" where
  "try_bind m f = (case m of Inl e \<Rightarrow> Inl e | Inr v \<Rightarrow> f v)"

definition dict_get :: "dict \<Rightarrow> string \<Rightarrow> json \<Rightarrow> json" where
  "dict_get d k dflt = (case map_of d k of Some v \<Rightarrow> v | None \<Rightarrow> dflt)"

text \<open>Truth value of a Python object (\<^verbatim>\<open>if x\<close>, \<^verbatim>\<open>not x\<close>).\<close>

fun truthy :: "json \<Rightarrow> bool" where
  "truthy JNull = False"
| "truthy (JBool b) = b"
| "truthy (JNum r) = (r \<noteq> 0)"
| "truthy (JStr s) = (s \<noteq> [])"
| "truthy (JArr xs) = (xs \<noteq> [])"
| "truthy (JObj d) = (d \<noteq> [])"

text \<open>The conversion of an \<^verbatim>\<open>int\<close> to a \<^verbatim>\<open>float\<close> (\<^verbatim>\<open>float(c)\<close>, and the
  \<^verbatim>\<open>int\<close> operand of a float division) raises \<^verbatim>\<open>OverflowError\<close> when \<open>c\<close> rounds
  beyond the largest double, \<^verbatim>\<open>2**1024 - 2**971\<close>. Every finite \<^verbatim>\<open>float\<close> is within
  the bound.\<close>

definition fits_float :: "real \<Rightarrow> bool" where
  "fits_float r = (\<bar>r\<bar> < 2 ^ 1024 - 2 ^ 970)"

definition int_to_float :: "int \<Rightarrow> error + real" where
  "int_to_float c = (if fits_float (of_int c) then Inr (of_int c) else Inl OverflowError)"

fun py_float :: "runtime \<Rightarrow> json \<Rightarrow> error + real" where
  "py_float rt (JNum r) = (if fits_float r then Inr r else Inl OverflowError)"
| "py_float rt (JBool b) = Inr (if b then 1 else 0)"
| "py_float rt (JStr s) = (case str_float rt s of Some r \<Rightarrow> Inr r | None \<Rightarrow> Inl ValueError)"
| "py_float rt _ = Inl TypeError"

text \<open>\<^verbatim>\<open>int(x)\<close> truncates a number towards zero.\<close>

definition trunc :: "real \<Rightarrow> int" where
  "trunc r = (if 0 \<le> r then \<lfloor>r\<rfloor> else \<lceil>r\<rceil>)"

fun py_int :: "runtime \<Rightarrow> json \<Rightarrow> error + int" where
  "py_int rt (JNum r) = Inr (trunc r)"
| "py_int rt (JBool b) = Inr (if b then 1 else 0)"
| "py_int rt (JStr s) = (case str_int rt s of Some i \<Rightarrow> Inr i | None \<Rightarrow> Inl ValueError)"
| "py_int rt _ = Inl TypeError"

text \<open>The operand of an order comparison with a number (\<^verbatim>\<open>hour < 6\<close>).\<close>

fun py_num :: "json \<Rightarrow> error + real" where
  "py_num (JNum r) = Inr r"
| "py_num (JBool b) = Inr (if b then 1 else 0)"
| "py_num _ = Inl TypeError"

text \<open>\<^verbatim>\<open>for x in v\<close>: a list gives its items, a string its characters, a dict
  its keys.\<close>

fun py_iter :: "json \<Rightarrow> error + json list" where
  "py_iter (JArr xs) = Inr xs"
| "py_iter (JStr s) = Inr (map (\<lambda>c. JStr [c]) s)"
| "py_iter (JObj d) = Inr (map (\<lambda>kv. JStr (fst kv)) d)"
| "py_iter _ = Inl TypeError"

text \<open>\<^verbatim>\<open>round(x, n)\<close>: to \<open>n\<close> decimals, a tie to the even neighbour.\<close>

definition round_half_even :: "real \<Rightarrow> int" where
  "round_half_even x =
     (let f = \<lfloor>x\<rfloor>; d = x - of_int f
      in if d < 1 / 2 then f
         else if 1 / 2 < d then f + 1
         else if even f then f else f + 1)"

definition py_round :: "real \<Rightarrow> nat \<Rightarrow> real" where
  "py_round x n = of_int (round_half_even (x * 10 ^ n)) / 10 ^ n"

text \<open>\<^verbatim>\<open>str(e)\<close> of a caught exception is the runtime's text; the model keeps the
  exception's class name in its place.\<close>

fun str_error :: "error \<Rightarrow> string" where
  "str_error TypeError = ''TypeError''"
| "str_error ValueError = ''ValueError''"
| "str_error AttributeError = ''AttributeError''"
| "str_error KeyError = ''KeyError''"
| "str_error ZeroDivisionError = ''ZeroDivisionError''"
| "str_error OverflowError = ''OverflowError''"
| "str_error ModelError = ''ModelError''"

text \<open>The \<^verbatim>\<open>try: ... except Exception as e: return jsonify({'error': str(e)}), 500\<close>
  around every endpoint.\<close>

definition catch500 :: "error + response \<Rightarrow> response" where
  "catch500 m = (case m of Inl e \<Rightarrow> (500, [(''error'', JStr (str_error e))]) | Inr r \<Rightarrow> r)"

definition risk_level :: "real \<Rightarrow> string" where
  "risk_level p = (if p > 0.7 then ''HIGH'' else if p > 0.4 then ''MEDIUM'' else ''LOW'')"

text \<open>Decimal digits of a natural number (\<^verbatim>\<open>str(n)\<close>, \<^verbatim>\<open>f'{n}'\<close>).\<close>

function string_of_nat :: "nat \<Rightarrow> string" where
  "string_of_nat n =
     (if n < 10 then [''0123456789'' ! n]
      else string_of_nat (n div 10) @ [''0123456789'' ! (n mod 10)])"
  by pat_completeness auto
termination
  by (relation "measure id") auto

declare string_of_nat.simps [simp del]

text \<open>\<^verbatim>\<open>f'{x:.1f}'\<close>: one decimal, a tie to the even neighbour, the sign kept
  when the digits round to zero.\<close>

definition fmt1 :: "real \<Rightarrow> string" where
  "fmt1 x =
     (let m = nat (round_half_even (\<bar>x\<bar> * 10));
          digits = string_of_nat (m div 10) @ ''.'' @ string_of_nat (m mod 10)
      in if x < 0 then ''-'' @ digits else digits)"

text \<open>A value that is not a dict raises \<^verbatim>\<open>AttributeError\<close> at its first
  \<^verbatim>\<open>.get\<close>; after that every \<^verbatim>\<open>.get\<close> is a lookup.\<close>

definition as_dict :: "json \<Rightarrow> error + dict" where
  "as_dict v = (case v of JObj d \<Rightarrow> Inr d | _ \<Rightarrow> Inl AttributeError)"

text \<open>Float division: \<^verbatim>\<open>a / b\<close> raises when \<open>b\<close> is zero.\<close>

definition py_div :: "runtime \<Rightarrow> real \<Rightarrow> real \<Rightarrow> error + real" where
  "py_div rt a b = (if b = 0 then Inl ZeroDivisionError else Inr (fdiv rt a b))"


section \<open>The loaded models\<close>

text \<open>
  The module's globals \<^verbatim>\<open>fraud_model\<close>, \<^verbatim>\<open>loan_model\<close>,
  \<^verbatim>\<open>expense_classifier\<close> and \<^verbatim>\<open>expense_vectorizer\<close> are \<^verbatim>\<open>None\<close> or a
  loaded object. A loaded object is opaque: it is modelled by what the server calls on it,
  each call returning \<open>None\<close> when it raises. A data frame is the list of its named
  columns.
\<close>

type_synonym frame = "(string \<times> real) list"

record fraud_handle =
  fraud_predict :: "frame \<Rightarrow> int option"
  fraud_predict_proba :: "frame \<Rightarrow> real option"

record loan_handle =
  loan_predict :: "frame \<Rightarrow> int option"
  loan_predict_proba :: "frame \<Rightarrow> real option"

type_synonym vectorizer = "json \<Rightarrow> real list option"

record classifier =
  clf_predict :: "real list \<Rightarrow> string option"
  clf_max_proba :: "real list \<Rightarrow> real option"

record env =
  fraud_model :: "fraud_handle option"
  loan_model :: "loan_handle option"
  expense_classifier :: "classifier option"
  expense_vectorizer :: "vectorizer option"

text \<open>
  \<^verbatim>\<open>load_models\<close> (lines 32 to 71) reads the four files once at start. A file is
  missing, or its deserialization raises, or it yields an object. Each of the three
  \<^verbatim>\<open>try\<close> blocks leaves the globals it has not yet assigned at \<^verbatim>\<open>None\<close>.
\<close>

datatype 'a artifact = Missing | Unreadable | Stored 'a

record disk =
  fraud_file :: "fraud_handle artifact"
  loan_file :: "loan_handle artifact"
  expense_file :: "classifier artifact"
  vectorizer_file :: "vectorizer artifact"

definition load_one :: "'a artifact \<Rightarrow> 'a option" where
  "load_one f = (case f of Stored m \<Rightarrow> Some m | _ \<Rightarrow> None)"

definition load_models :: "disk \<Rightarrow> env" where
  "load_models dk =
     (let (expense_classifier, expense_vectorizer) =
            (if expense_file dk \<noteq> Missing \<and> vectorizer_file dk \<noteq> Missing then
               (case expense_file dk of
                  Stored c \<Rightarrow>
                    (case vectorizer_file dk of
                       Stored v \<Rightarrow> (Some c, Some v)
                     | _ \<Rightarrow> (Some c, None))
                | _ \<Rightarrow> (None, None))
             else (None, None))
      in \<lparr>fraud_model = load_one (fraud_file dk),
           loan_model = load_one (loan_file dk),
           expense_classifier = expense_classifier,
           expense_vectorizer = expense_vectorizer\<rparr>)"

definition raising :: "'a option \<Rightarrow> error + 'a" where
  "raising m = (case m of None \<Rightarrow> Inl ModelError | Some v \<Rightarrow> Inr v)"

section \<open>Fraud scoring: \<^verbatim>\<open>predict_fraud\<close>\<close>

definition feature_names :: "string list" where
  "feature_names = [''Time''] @ map (\<lambda>i. ''V'' @ string_of_nat i) [1..<29] @ [''Amount'']"

fun build_features :: "runtime \<Rightarrow> dict \<Rightarrow> string list \<Rightarrow> real list \<Rightarrow> error + real list" where
  "build_features rt data [] features = Inr features"
| "build_features rt data (feat # feats) features =
     (let v = dict_get data feat (JNum 0)
      in try_bind (if v \<noteq> JNull then py_float rt v else Inr 0) (\<lambda>x.
           build_features rt data feats (features @ [x])))"

text \<open>The score of the simplified mode (lines 127 to 155), from the four values it
  reads.\<close>

definition simplified_risk_score :: "real \<Rightarrow> real \<Rightarrow> bool \<Rightarrow> bool \<Rightarrow> real" where
  "simplified_risk_score amount hour is_foreign rapid_transactions =
     (let risk_score = (0::real);
          risk_score = (if amount > 5000 then risk_score + 0.3
                        else if amount > 2000 then risk_score + 0.15
                        else if amount > 1000 then risk_score + 0.05
                        else risk_score);
          risk_score = (if amount < 1 \<or> amount > 10000 then risk_score + 0.2
                        else risk_score);
          risk_score = (if hour < 6 \<or> hour > 23 then risk_score + 0.1 else risk_score);
          risk_score = (if is_foreign then risk_score + 0.15 else risk_score);
          risk_score = (if rapid_transactions then risk_score + 0.25 else risk_score)
      in min risk_score 0.95)"

text \<open>The simplified mode of \<^verbatim>\<open>predict_fraud\<close> (lines 122 to 162).\<close>

definition fraud_simplified :: "runtime \<Rightarrow> dict \<Rightarrow> error + response" where
  "fraud_simplified rt data =
     try_bind (py_float rt (dict_get data ''Amount'' (JNum 0))) (\<lambda>amount.
     try_bind (py_num (dict_get data ''hour'' (JNum 12))) (\<lambda>hour.
       let risk_score = simplified_risk_score amount hour
                          (truthy (dict_get data ''is_foreign'' (JBool False)))
                          (truthy (dict_get data ''rapid_transactions'' (JBool False)))
       in Inr (200, [(''is_fraud'', JBool (risk_score > 0.5)),
                     (''fraud_probability'', JNum (py_round risk_score 4)),
                     (''risk_level'', JStr (risk_level risk_score)),
                     (''model_type'', JStr ''heuristic'')])))"

text \<open>The model mode (lines 164 to 199).\<close>

definition fraud_full :: "env \<Rightarrow> runtime \<Rightarrow> dict \<Rightarrow> error + response" where
  "fraud_full e rt data =
     (case fraud_model e of
        None \<Rightarrow>
          Inr (503, [(''error'', JStr ''Fraud detection model not loaded''),
                     (''fallback'', JBool True),
                     (''is_fraud'', JBool False),
                     (''fraud_probability'', JNum 0)])
      | Some m \<Rightarrow>
          try_bind (build_features rt data feature_names []) (\<lambda>features.
            let X = zip feature_names features in
          try_bind (raising (fraud_predict m X)) (\<lambda>prediction.
          try_bind (case fraud_predict_proba m X of
                      Some p \<Rightarrow> Inr p
                    | None \<Rightarrow> int_to_float prediction) (\<lambda>probability.
            Inr (200, [(''is_fraud'', JBool (prediction \<noteq> 0)),
                       (''fraud_probability'', JNum (py_round probability 4)),
                       (''risk_level'', JStr (risk_level probability)),
                       (''model_type'', JStr ''ml_model'')])))))"

definition predict_fraud :: "env \<Rightarrow> runtime \<Rightarrow> json \<Rightarrow> response" where
  "predict_fraud e rt data = catch500 (
     if \<not> truthy data then Inr (400, [(''error'', JStr ''No input data provided'')])
     else
       try_bind (as_dict data) (\<lambda>d.
         if truthy (dict_get d ''simplified'' (JBool False)) then fraud_simplified rt d
         else fraud_full e rt d))"

section \<open>Batch fraud scoring: \<^verbatim>\<open>predict_fraud_batch\<close>\<close>

text \<open>The body of the loop over the transactions: one result dict for \<open>tx\<close>.\<close>

definition batch_result :: "runtime \<Rightarrow> json \<Rightarrow> error + dict" where
  "batch_result rt tx =
     try_bind (as_dict tx) (\<lambda>tx.
     try_bind (py_float rt (dict_get tx ''Amount'' (dict_get tx ''amount'' (JNum 0)))) (\<lambda>amount.
       let risk_score = (0::real);
           risk_score = (if amount > 5000 then risk_score + 0.3
                         else if amount > 2000 then risk_score + 0.15
                         else risk_score);
           risk_score = (if amount < 1 \<or> amount > 10000 then risk_score + 0.2
                         else risk_score);
           risk_score = (if truthy (dict_get tx ''is_foreign'' (JBool False))
                         then risk_score + 0.15 else risk_score);
           risk_score = min risk_score 0.95
       in Inr [(''transaction_id'', dict_get tx ''id'' (dict_get tx ''transaction_id'' JNull)),
               (''is_fraud'', JBool (risk_score > 0.5)),
               (''fraud_probability'', JNum (py_round risk_score 4)),
               (''risk_level'', JStr (risk_level risk_score))]))"

fun batch_loop :: "runtime \<Rightarrow> json list \<Rightarrow> dict list \<Rightarrow> error + dict list" where
  "batch_loop rt [] results = Inr results"
| "batch_loop rt (tx # txs) results =
     try_bind (batch_result rt tx) (\<lambda>r. batch_loop rt txs (results @ [r]))"

definition is_flagged :: "dict \<Rightarrow> bool" where
  "is_flagged r = truthy (dict_get r ''is_fraud'' JNull)"

definition predict_fraud_batch :: "runtime \<Rightarrow> json \<Rightarrow> response" where
  "predict_fraud_batch rt data = catch500 (
     try_bind (as_dict data) (\<lambda>d.
     try_bind (py_iter (dict_get d ''transactions'' (JArr []))) (\<lambda>transactions.
     try_bind (batch_loop rt transactions []) (\<lambda>results.
       Inr (200, [(''success'', JBool True),
                  (''results'', JArr (map JObj results)),
                  (''total'', JNum (of_nat (length results))),
                  (''flagged'', JNum (of_nat (length (filter is_flagged results))))])))))"

section \<open>Loan scoring: \<^verbatim>\<open>predict_loan\<close> and \<^verbatim>\<open>get_risk_factors\<close>\<close>

definition factor :: "string \<Rightarrow> string \<Rightarrow> string \<Rightarrow> json" where
  "factor name status message =
     JObj [(''factor'', JStr name), (''status'', JStr status), (''message'', JStr message)]"

definition get_risk_factors :: "runtime \<Rightarrow> dict \<Rightarrow> real \<Rightarrow> real \<Rightarrow> real \<Rightarrow> error + json list" where
  "get_risk_factors rt data emi income_to_loan credit_history =
     (let factors = [];
          factors = (if credit_history = 1
                     then factors @ [factor ''Credit History'' ''positive'' ''Good credit history'']
                     else factors @ [factor ''Credit History'' ''negative''
                                       ''No credit history or defaults'']);
          factors = (if income_to_loan > 5
                     then factors @ [factor ''Income-to-Loan Ratio'' ''positive''
                                       (''Strong ratio: '' @ fmt1 income_to_loan @ ''x'')]
                     else if income_to_loan > 2
                     then factors @ [factor ''Income-to-Loan Ratio'' ''neutral''
                                       (''Adequate ratio: '' @ fmt1 income_to_loan @ ''x'')]
                     else factors @ [factor ''Income-to-Loan Ratio'' ''negative''
                                       (''Low ratio: '' @ fmt1 income_to_loan @ ''x'')])
      in
     try_bind (py_float rt (dict_get data ''ApplicantIncome'' (JNum 0))) (\<lambda>applicant.
     try_bind (py_float rt (dict_get data ''CoapplicantIncome'' (JNum 0))) (\<lambda>coapplicant.
       let monthly_income = fdiv rt (fadd rt applicant coapplicant) 12
       in if monthly_income > 0 then
            let emi_percent = fmul rt (fdiv rt emi monthly_income) 100
            in if emi_percent < 30
               then Inr (factors @ [factor ''EMI Affordability'' ''positive''
                          (''EMI is '' @ fmt1 emi_percent @ ''% of monthly income'')])
               else if emi_percent < 50
               then Inr (factors @ [factor ''EMI Affordability'' ''neutral''
                          (''EMI is '' @ fmt1 emi_percent @ ''% of monthly income'')])
               else Inr (factors @ [factor ''EMI Affordability'' ''negative''
                          (''EMI is '' @ fmt1 emi_percent @ ''% of monthly income (high)'')])
          else Inr factors)))"

text \<open>The values \<^verbatim>\<open>predict_loan\<close> extracts and derives before it chooses a path
  (lines 235 to 259).\<close>

record loan_vars =
  applicant_income :: real
  coapplicant_income :: real
  loan_amount :: real
  loan_term :: real
  credit_history :: real
  dependents :: int
  total_income :: real
  emi :: real
  income_to_loan :: real
  loan_per_person :: real

definition loan_extract :: "runtime \<Rightarrow> dict \<Rightarrow> error + loan_vars" where
  "loan_extract rt data =
     try_bind (py_float rt (dict_get data ''ApplicantIncome'' (JNum 0))) (\<lambda>applicant_income.
     try_bind (py_float rt (dict_get data ''CoapplicantIncome'' (JNum 0))) (\<lambda>coapplicant_income.
     try_bind (py_float rt (dict_get data ''LoanAmount'' (JNum 0))) (\<lambda>loan_amount.
     try_bind (py_float rt (dict_get data ''Loan_Amount_Term'' (JNum 360))) (\<lambda>loan_term.
     try_bind (py_float rt (dict_get data ''Credit_History'' (JNum 1))) (\<lambda>credit_history.
       let dependents = dict_get data ''Dependents'' (JNum 0) in
     try_bind (case dependents of
                 JStr s \<Rightarrow> if s = ''3+'' then Inr 3 else py_int rt dependents
               | _ \<Rightarrow> py_int rt dependents) (\<lambda>dependents.
       let total_income = fadd rt applicant_income coapplicant_income;
           loan_term = (if loan_term = 0 then 360 else loan_term);
           loan_amount = (if loan_amount = 0 then 1 else loan_amount)
       in
     try_bind (py_div rt loan_amount loan_term) (\<lambda>emi.
     try_bind (py_div rt total_income (fadd rt loan_amount 1)) (\<lambda>income_to_loan.
     try_bind (int_to_float (dependents + 1)) (\<lambda>persons.
     try_bind (py_div rt loan_amount persons) (\<lambda>loan_per_person.
       Inr \<lparr>applicant_income = applicant_income,
            coapplicant_income = coapplicant_income,
            loan_amount = loan_amount,
            loan_term = loan_term,
            credit_history = credit_history,
            dependents = dependents,
            total_income = total_income,
            emi = emi,
            income_to_loan = income_to_loan,
            loan_per_person = loan_per_person\<rparr>))))))))))"

definition one_hot :: "bool \<Rightarrow> real" where
  "one_hot b = (if b then 1 else 0)"

definition loan_features :: "dict \<Rightarrow> loan_vars \<Rightarrow> error + frame" where
  "loan_features data v =
     try_bind (int_to_float (dependents v)) (\<lambda>dependents_float. Inr
     [(''ApplicantIncome'', applicant_income v),
      (''CoapplicantIncome'', coapplicant_income v),
      (''LoanAmount'', loan_amount v),
      (''Loan_Amount_Term'', loan_term v),
      (''Credit_History'', credit_history v),
      (''Dependents'', dependents_float),
      (''Total_Income'', total_income v),
      (''EMI'', emi v),
      (''Income_to_Loan'', income_to_loan v),
      (''Loan_per_person'', loan_per_person v),
      (''Gender_Male'', one_hot (dict_get data ''Gender'' (JStr ''Male'') = JStr ''Male'')),
      (''Married_Yes'', one_hot (dict_get data ''Married'' (JStr ''No'') = JStr ''Yes'')),
      (''Education_Not Graduate'',
         one_hot (dict_get data ''Education'' (JStr ''Graduate'') = JStr ''Not Graduate'')),
      (''Self_Employed_Yes'', one_hot (dict_get data ''Self_Employed'' (JStr ''No'') = JStr ''Yes'')),
      (''Property_Area_Semiurban'',
         one_hot (dict_get data ''Property_Area'' (JStr ''Urban'') = JStr ''Semiurban'')),
      (''Property_Area_Urban'',
         one_hot (dict_get data ''Property_Area'' (JStr ''Urban'') = JStr ''Urban''))])"

text \<open>The body of the inner \<^verbatim>\<open>try\<close> (lines 264 to 303): what raises here is caught
  by the \<^verbatim>\<open>except\<close> of line 305. \<open>loan_features\<close> is the dict of lines 266 to 284,
  where only \<^verbatim>\<open>float(dependents)\<close> can raise. \<open>loan_predict\<close> stands for lines 287 to
  290 (the data frame is built from the features and the model predicts),
  \<open>loan_predict_proba\<close> for line 294, whose failure lines 295 and 296 replace by the
  prediction.\<close>

definition loan_model_path :: "loan_handle \<Rightarrow> runtime \<Rightarrow> dict \<Rightarrow> loan_vars \<Rightarrow> error + response" where
  "loan_model_path m rt data v =
     try_bind (loan_features data v) (\<lambda>X.
     try_bind (raising (loan_predict m X)) (\<lambda>prediction.
     try_bind (case loan_predict_proba m X of
                 Some p \<Rightarrow> Inr p
               | None \<Rightarrow> int_to_float prediction) (\<lambda>probability.
     try_bind (get_risk_factors rt data (emi v) (income_to_loan v) (credit_history v)) (\<lambda>risk.
       Inr (200, [(''is_approved'', JBool (prediction \<noteq> 0)),
                  (''approval_probability'', JNum (py_round probability 4)),
                  (''risk_assessment'', JArr risk),
                  (''model_type'', JStr ''ml_model'')])))))"

text \<open>The score of the heuristic path before it is returned (lines 310 to 355).\<close>

definition heuristic_score :: "runtime \<Rightarrow> dict \<Rightarrow> loan_vars \<Rightarrow> real" where
  "heuristic_score rt data v =
     (let score = (0.5::real);
          score = (if credit_history v = 1 then fadd rt score 0.25 else fsub rt score 0.35);
          score = (if income_to_loan v > 10 then fadd rt score 0.15
                   else if income_to_loan v > 5 then fadd rt score 0.1
                   else if income_to_loan v > 2 then fadd rt score 0.05
                   else if income_to_loan v < 1 then fsub rt score 0.15
                   else score);
          monthly_income = fdiv rt (total_income v) 12;
          score = (if monthly_income > 0 then
                     let emi_ratio = fdiv rt (emi v) monthly_income
                     in if emi_ratio < 0.2 then fadd rt score 0.1
                        else if emi_ratio < 0.4 then fadd rt score 0.05
                        else if emi_ratio > 0.5 then fsub rt score 0.1
                        else score
                   else score);
          score = (if dict_get data ''Education'' (JStr ''Graduate'') = JStr ''Graduate''
                   then fadd rt score 0.05 else score);
          score = (if dict_get data ''Married'' (JStr ''No'') = JStr ''Yes'' \<and> coapplicant_income v > 0
                   then fadd rt score 0.05 else score);
          property_area = dict_get data ''Property_Area'' (JStr ''Urban'');
          score = (if property_area = JStr ''Semiurban'' then fadd rt score 0.05
                   else if property_area = JStr ''Rural'' then fsub rt score 0.05
                   else score)
      in max 0.05 (min 0.95 score))"

definition loan_heuristic_path :: "runtime \<Rightarrow> dict \<Rightarrow> loan_vars \<Rightarrow> error + response" where
  "loan_heuristic_path rt data v =
     (let score = heuristic_score rt data v in
      try_bind (get_risk_factors rt data (emi v) (income_to_loan v) (credit_history v)) (\<lambda>risk.
        Inr (200, [(''is_approved'', JBool (score \<ge> 0.5)),
                   (''approval_probability'', JNum (py_round score 4)),
                   (''risk_assessment'', JArr risk),
                   (''model_type'', JStr ''heuristic'')])))"

definition predict_loan :: "env \<Rightarrow> runtime \<Rightarrow> json \<Rightarrow> response" where
  "predict_loan e rt data = catch500 (
     if \<not> truthy data then Inr (400, [(''error'', JStr ''No input data provided'')])
     else
       try_bind (as_dict data) (\<lambda>d.
       try_bind (loan_extract rt d) (\<lambda>v.
         case loan_model e of
           None \<Rightarrow> loan_heuristic_path rt d v
         | Some m \<Rightarrow>
             (case loan_model_path m rt d v of
                Inr r \<Rightarrow> Inr r
              | Inl model_error \<Rightarrow> loan_heuristic_path rt d v))))"

section \<open>Loan calculator: \<^verbatim>\<open>calculate_loan\<close>\<close>



section \<open>Expense categorization\<close>

text \<open>
  \<^verbatim>\<open>str.lower()\<close> and the substring test \<^verbatim>\<open>kw in s\<close>. A Python string is
  modelled by its UTF-8 bytes. On a pure ASCII string (no byte has its top bit set)
  \<^verbatim>\<open>lower\<close> maps the letters \<^verbatim>\<open>A\<close> to \<^verbatim>\<open>Z\<close> to \<^verbatim>\<open>a\<close> to \<^verbatim>\<open>z\<close> and leaves
  every other character as it is; on any other string it is the runtime's Unicode case
  mapping, which may shorten or lengthen the string and may produce ASCII letters (the
  Kelvin sign becomes \<^verbatim>\<open>k\<close>). The keywords are ASCII, and an ASCII byte never occurs
  inside the encoding of another character, so the substring test on bytes is the one on
  characters.
\<close>

definition lower_char :: "char \<Rightarrow> char" where
  "lower_char c =
     (case map_of (zip ''ABCDEFGHIJKLMNOPQRSTUVWXYZ'' ''abcdefghijklmnopqrstuvwxyz'') c of
        Some l \<Rightarrow> l
      | None \<Rightarrow> c)"

definition is_ascii :: "string \<Rightarrow> bool" where
  "is_ascii s = list_all (\<lambda>c. \<not> digit7 c) s"

definition lower :: "runtime \<Rightarrow> string \<Rightarrow> string" where
  "lower rt s = (if is_ascii s then map lower_char s else unicode_lower rt s)"

fun starts_with :: "string \<Rightarrow> string \<Rightarrow> bool" where
  "starts_with s [] = True"
| "starts_with [] (k # ks) = False"
| "starts_with (c # cs) (k # ks) = (c = k \<and> starts_with cs ks)"

fun py_in :: "string \<Rightarrow> string \<Rightarrow> bool" where
  "py_in kw [] = (kw = [])"
| "py_in kw (c # cs) = (starts_with (c # cs) kw \<or> py_in kw cs)"

text \<open>\<^verbatim>\<open>any(kw in s for kw in kws)\<close>.\<close>

definition any_in :: "string list \<Rightarrow> string \<Rightarrow> bool" where
  "any_in kws s = list_ex (\<lambda>kw. py_in kw s) kws"

record metadata =
  icon :: string
  color :: string

definition CATEGORY_METADATA :: "(string \<times> metadata) list" where
  "CATEGORY_METADATA =
     [(''Food & Dining'', \<lparr>icon = ''restaurant'', color = ''#ef4444''\<rparr>),
      (''Transportation'', \<lparr>icon = ''directions_car'', color = ''#f97316''\<rparr>),
      (''Shopping'', \<lparr>icon = ''shopping_bag'', color = ''#8b5cf6''\<rparr>),
      (''Bills & Utilities'', \<lparr>icon = ''receipt_long'', color = ''#06b6d4''\<rparr>),
      (''Entertainment'', \<lparr>icon = ''movie'', color = ''#ec4899''\<rparr>),
      (''Healthcare'', \<lparr>icon = ''local_hospital'', color = ''#10b981''\<rparr>),
      (''Education'', \<lparr>icon = ''school'', color = ''#3b82f6''\<rparr>),
      (''Travel'', \<lparr>icon = ''flight'', color = ''#14b8a6''\<rparr>),
      (''Personal Care'', \<lparr>icon = ''spa'', color = ''#f472b6''\<rparr>),
      (''Others'', \<lparr>icon = ''category'', color = ''#6b7280''\<rparr>)]"

definition food_keywords :: "string list" where
  "food_keywords = [''swiggy'', ''zomato'', ''restaurant'', ''cafe'', ''food'', ''pizza'',
     ''burger'', ''coffee'', ''dinner'', ''lunch'', ''breakfast'',
     ''mcdonald'', ''starbucks'', ''domino'', ''kfc'', ''subway'']"

definition transport_keywords :: "string list" where
  "transport_keywords = [''uber'', ''ola'', ''rapido'', ''metro'', ''petrol'', ''fuel'',
     ''gas station'', ''parking'', ''toll'', ''cab'', ''taxi'',
     ''bus'', ''train'', ''flight'', ''airline'']"

definition shopping_keywords :: "string list" where
  "shopping_keywords = [''amazon'', ''flipkart'', ''myntra'', ''shopping'', ''store'',
     ''mart'', ''purchase'', ''order'', ''delivery'', ''grocery'']"

definition bills_keywords :: "string list" where
  "bills_keywords = [''electricity'', ''water bill'', ''internet'', ''broadband'',
     ''mobile recharge'', ''rent'', ''maintenance'', ''utility'',
     ''gas bill'', ''phone bill'', ''dth'']"

definition entertainment_keywords :: "string list" where
  "entertainment_keywords = [''netflix'', ''spotify'', ''movie'', ''cinema'', ''game'',
     ''hotstar'', ''prime'', ''youtube'', ''concert'', ''show'']"

definition healthcare_keywords :: "string list" where
  "healthcare_keywords = [''hospital'', ''doctor'', ''pharmacy'', ''medicine'', ''medical'',
     ''clinic'', ''health'', ''dental'', ''lab test'']"

definition education_keywords :: "string list" where
  "education_keywords = [''course'', ''tuition'', ''school'', ''college'', ''book'',
     ''udemy'', ''coursera'', ''education'', ''training'']"

definition travel_keywords :: "string list" where
  "travel_keywords = [''hotel'', ''booking'', ''airbnb'', ''makemytrip'',
     ''goibibo'', ''travel'', ''vacation'', ''trip'']"

definition get_category_fallback :: "runtime \<Rightarrow> string \<Rightarrow> string \<times> real" where
  "get_category_fallback rt description =
     (let description_lower = lower rt description
      in if any_in food_keywords description_lower then (''Food & Dining'', 0.85)
         else if any_in transport_keywords description_lower then (''Transportation'', 0.85)
         else if any_in shopping_keywords description_lower then (''Shopping'', 0.85)
         else if any_in bills_keywords description_lower then (''Bills & Utilities'', 0.85)
         else if any_in entertainment_keywords description_lower then (''Entertainment'', 0.85)
         else if any_in healthcare_keywords description_lower then (''Healthcare'', 0.85)
         else if any_in education_keywords description_lower then (''Education'', 0.85)
         else if any_in travel_keywords description_lower then (''Travel'', 0.85)
         else (''Others'', 0.50))"

text \<open>\<^verbatim>\<open>d[k]\<close> raises \<^verbatim>\<open>KeyError\<close> on a missing key.\<close>

definition dict_index :: "('k \<times> 'v) list \<Rightarrow> 'k \<Rightarrow> error + 'v" where
  "dict_index d k = (case map_of d k of Some v \<Rightarrow> Inr v | None \<Rightarrow> Inl KeyError)"

text \<open>The model branch (lines 613 to 615 and 668 to 670).\<close>

definition expense_ml_path :: "classifier \<Rightarrow> vectorizer \<Rightarrow> json \<Rightarrow> error + string \<times> real" where
  "expense_ml_path c v description =
     try_bind (raising (v description)) (\<lambda>input_tfidf.
     try_bind (raising (clf_predict c input_tfidf)) (\<lambda>prediction.
     try_bind (raising (clf_max_proba c input_tfidf)) (\<lambda>proba.
       Inr (prediction, proba * 100))))"

text \<open>The keyword branch (lines 618 to 619 and 672 to 673); \<^verbatim>\<open>.lower()\<close> is a
  method of strings only.\<close>

definition expense_fallback_path :: "runtime \<Rightarrow> json \<Rightarrow> error + string \<times> real" where
  "expense_fallback_path rt description =
     (case description of
        JStr s \<Rightarrow>
          (let (prediction, confidence) = get_category_fallback rt s
           in Inr (prediction, confidence * 100))
      | _ \<Rightarrow> Inl AttributeError)"

text \<open>The choice between the two branches (lines 611 and 667).\<close>

definition classify :: "env \<Rightarrow> runtime \<Rightarrow> json \<Rightarrow> error + string \<times> real" where
  "classify e rt description =
     (if expense_classifier e \<noteq> None \<and> expense_vectorizer e \<noteq> None
      then expense_ml_path (the (expense_classifier e)) (the (expense_vectorizer e)) description
      else expense_fallback_path rt description)"

text \<open>The \<^verbatim>\<open>model_used\<close> field (lines 629 and 689).\<close>

definition model_used :: "env \<Rightarrow> json" where
  "model_used e = JStr (if expense_classifier e \<noteq> None then ''ml'' else ''fallback'')"

definition categorize_expense :: "env \<Rightarrow> runtime \<Rightarrow> json \<Rightarrow> response" where
  "categorize_expense e rt data = catch500 (
     try_bind (as_dict data) (\<lambda>d.
       let description = dict_get d ''description'' (JStr [])
       in if \<not> truthy description
          then Inr (400, [(''error'', JStr ''Description is required'')])
          else
            try_bind (classify e rt description) (\<lambda>(prediction, confidence).
            try_bind (dict_index CATEGORY_METADATA ''Others'') (\<lambda>others.
              let metadata = (case map_of CATEGORY_METADATA prediction of
                                Some m \<Rightarrow> m | None \<Rightarrow> others)
              in Inr (200, [(''category'', JStr prediction),
                            (''confidence'', JNum (py_round confidence 2)),
                            (''icon'', JStr (icon metadata)),
                            (''color'', JStr (color metadata)),
                            (''model_used'', model_used e)])))))"

definition categorize_item :: "env \<Rightarrow> runtime \<Rightarrow> json \<Rightarrow> error + dict" where
  "categorize_item e rt txn =
     try_bind (as_dict txn) (\<lambda>txn.
       let txn_id = dict_get txn ''id'' (JStr []);
           description = dict_get txn ''description'' (JStr [])
       in
     try_bind (classify e rt description) (\<lambda>(prediction, confidence).
     try_bind (dict_index CATEGORY_METADATA ''Others'') (\<lambda>others.
       let metadata = (case map_of CATEGORY_METADATA prediction of
                         Some m \<Rightarrow> m | None \<Rightarrow> others)
       in Inr [(''id'', txn_id),
               (''description'', description),
               (''category'', JStr prediction),
               (''confidence'', JNum (py_round confidence 2)),
               (''icon'', JStr (icon metadata)),
               (''color'', JStr (color metadata))])))"

fun categorize_loop :: "env \<Rightarrow> runtime \<Rightarrow> json list \<Rightarrow> dict list \<Rightarrow> error + dict list" where
  "categorize_loop e rt [] results = Inr results"
| "categorize_loop e rt (txn # txns) results =
     try_bind (categorize_item e rt txn) (\<lambda>r. categorize_loop e rt txns (results @ [r]))"

definition categorize_batch :: "env \<Rightarrow> runtime \<Rightarrow> json \<Rightarrow> response" where
  "categorize_batch e rt data = catch500 (
     try_bind (as_dict data) (\<lambda>d.
       let transactions = dict_get d ''transactions'' (JArr [])
       in if \<not> truthy transactions
          then Inr (400, [(''error'', JStr ''Transactions array is required'')])
          else
            try_bind (py_iter transactions) (\<lambda>txns.
            try_bind (categorize_loop e rt txns []) (\<lambda>results.
              Inr (200, [(''results'', JArr (map JObj results)),
                         (''count'', JNum (of_nat (length results))),
                         (''model_used'', model_used e)])))))"

section \<open>Reading a response, and the rules as the specification words them\<close>

text \<open>Exact powers, raising where \<^verbatim>\<open>pow\<close> does on a zero base.\<close>

definition exact_pow :: "real \<Rightarrow> int \<Rightarrow> error + real" where
  "exact_pow x n =
     (if 0 \<le> n then Inr (x ^ nat n)
      else if x = 0 then Inl ZeroDivisionError
      else Inr (1 / x ^ nat (- n)))"

text \<open>A runtime whose string conversions always raise, whose Unicode case mapping (never
  used below) changes nothing and whose arithmetic is exact, and a server with no model
  loaded: the fixed inputs of the examples below. The examples are taken away from the
  thresholds and from the ties of rounding, so that the responses are those of binary
  floating point as well.\<close>

definition no_parse :: runtime where
  "no_parse = \<lparr>str_float = (\<lambda>s. None), str_int = (\<lambda>s. None),
                unicode_lower = (\<lambda>s. s),
                fadd = (\<lambda>x y. x + y), fsub = (\<lambda>x y. x - y), fmul = (\<lambda>x y. x * y),
                fdiv = (\<lambda>x y. x / y), fpow = exact_pow\<rparr>"

definition no_models :: env where
  "no_models = \<lparr>fraud_model = None, loan_model = None,
                 expense_classifier = None, expense_vectorizer = None\<rparr>"

text \<open>A runtime whose case mapping is Python's on the strings made of ASCII characters
  and Kelvin signs (U+212A, three bytes in UTF-8, lower-cased to \<^verbatim>\<open>k\<close>).\<close>

definition kelvin_sign :: string where
  "kelvin_sign = [Char False True False False False True True True,
                  Char False False True False False False False True,
                  Char False True False True False True False True]"

fun lower_kelvin :: "string \<Rightarrow> string" where
  "lower_kelvin (a # b # c # s) =
     (if [a, b, c] = kelvin_sign then CHR ''k'' # lower_kelvin s
      else lower_char a # lower_kelvin (b # c # s))"
| "lower_kelvin s = map lower_char s"

definition kelvin_runtime :: runtime where
  "kelvin_runtime = no_parse\<lparr>unicode_lower := lower_kelvin\<rparr>"

text \<open>A field of a JSON object, \<open>JNull\<close> when it has none.\<close>

definition field :: "string \<Rightarrow> json \<Rightarrow> json" where
  "field k v = (case v of JObj d \<Rightarrow> dict_get d k JNull | _ \<Rightarrow> JNull)"

text \<open>The inner \<^verbatim>\<open>try\<close> of \<^verbatim>\<open>predict_loan\<close> completes: the features are built,
  the prediction does not raise, and the probability estimate does not raise or the
  prediction converts to a float in its place.\<close>

definition model_answers :: "loan_handle \<Rightarrow> error + frame \<Rightarrow> bool" where
  "model_answers m features =
     (case features of
        Inl err \<Rightarrow> False
      | Inr X \<Rightarrow>
          (case loan_predict m X of
             None \<Rightarrow> False
           | Some c \<Rightarrow>
               (case loan_predict_proba m X of
                  Some p \<Rightarrow> True
                | None \<Rightarrow> fits_float (of_int c))))"


definition proba_failing_model :: loan_handle where
  "proba_failing_model = \<lparr>loan_predict = (\<lambda>X. Some 1), loan_predict_proba = (\<lambda>X. None)\<rparr>"


definition with_loan_model :: "loan_handle \<Rightarrow> env" where
  "with_loan_model m = \<lparr>fraud_model = None, loan_model = Some m,
                        expense_classifier = None, expense_vectorizer = None\<rparr>"

definition sample_vars :: loan_vars where
  "sample_vars = \<lparr>applicant_income = 5000, coapplicant_income = 0, loan_amount = 100,
       loan_term = 360, credit_history = 1, dependents = 0, total_income = 5000,
       emi = 5 / 18, income_to_loan = 5000 / 101, loan_per_person = 100\<rparr>"

definition negative_income_vars :: loan_vars where
  "negative_income_vars = \<lparr>applicant_income = - 1200, coapplicant_income = 0, loan_amount = 1,
       loan_term = 360, credit_history = 1, dependents = 0, total_income = - 1200,
       emi = 1 / 360, income_to_loan = - 600, loan_per_person = 1\<rparr>"

definition no_income_vars :: loan_vars where
  "no_income_vars = \<lparr>applicant_income = 0, coapplicant_income = 0, loan_amount = 100,
       loan_term = 360, credit_history = 1, dependents = 0, total_income = 0,
       emi = 5 / 18, income_to_loan = 0, loan_per_person = 100\<rparr>"



text \<open>A classifier, a server that has loaded a classifier and no vectorizer, and a disk
  whose vectorizer file exists and cannot be read.\<close>

definition sample_classifier :: classifier where
  "sample_classifier = \<lparr>clf_predict = (\<lambda>x. Some ''Travel''), clf_max_proba = (\<lambda>x. Some 0.99)\<rparr>"

definition classifier_only :: "classifier \<Rightarrow> env" where
  "classifier_only c = \<lparr>fraud_model = None, loan_model = None,
                          expense_classifier = Some c, expense_vectorizer = None\<rparr>"

definition vectorizer_unreadable :: "classifier \<Rightarrow> disk" where
  "vectorizer_unreadable c = \<lparr>fraud_file = Missing, loan_file = Missing,
                                expense_file = Stored c, vectorizer_file = Unreadable\<rparr>"

text \<open>The \<^verbatim>\<open>risk_assessment\<close> array of a loan response.\<close>

definition risk_assessment_of :: "response \<Rightarrow> json list" where
  "risk_assessment_of r =
     (case field ''risk_assessment'' (JObj (snd r)) of JArr fs \<Rightarrow> fs | _ \<Rightarrow> [])"

text \<open>The \<^verbatim>\<open>results\<close> array of a batch response.\<close>

definition results_of :: "response \<Rightarrow> json list" where
  "results_of r = (case field ''results'' (JObj (snd r)) of JArr rs \<Rightarrow> rs | _ \<Rightarrow> [])"

text \<open>The multiples of \<open>1/20\<close>: the simplified fraud score is a sum of such numbers.\<close>

definition on_grid :: "real \<Rightarrow> bool" where
  "on_grid x = (\<exists>k::int. x = of_int k / 20)"

subsection \<open>Simplified fraud score: the risk-boosting predicates\<close>

definition amount_tier :: "real \<Rightarrow> nat" where
  "amount_tier a = (if a > 5000 then 3 else if a > 2000 then 2 else if a > 1000 then 1 else 0)"

definition extreme_amount :: "real \<Rightarrow> bool" where
  "extreme_amount a = (a < 1 \<or> a > 10000)"

definition late_hour :: "real \<Rightarrow> bool" where
  "late_hour h = (h < 6 \<or> h > 23)"

subsection \<open>Loan heuristic: the rules of the specification, one by one\<close>

text \<open>An adjustment is a signed amount: a positive one is added to the score
  (\<^verbatim>\<open>+0.25\<close>), a negative one subtracted from it (\<^verbatim>\<open>-0.35\<close>), and a rule that does
  not apply leaves the score as it is.\<close>

definition adjust :: "runtime \<Rightarrow> real \<Rightarrow> real \<Rightarrow> real" where
  "adjust rt score a =
     (if a > 0 then fadd rt score a else if a < 0 then fsub rt score (- a) else score)"

definition spec_credit_rule :: "real \<Rightarrow> real" where
  "spec_credit_rule ch = (if ch = 1 then 0.25 else - 0.35)"

definition spec_income_rule :: "real \<Rightarrow> real" where
  "spec_income_rule r =
     (if r > 10 then 0.15 else if r > 5 then 0.1 else if r > 2 then 0.05
      else if r < 1 then - 0.15 else 0)"

definition spec_emi_rule :: "real \<Rightarrow> real" where
  "spec_emi_rule ratio =
     (if ratio < 0.2 then 0.1 else if ratio < 0.4 then 0.05
      else if ratio > 0.5 then - 0.1 else 0)"

definition spec_education_rule :: "json \<Rightarrow> real" where
  "spec_education_rule education = (if education = JStr ''Graduate'' then 0.05 else 0)"

definition spec_married_rule :: "json \<Rightarrow> real \<Rightarrow> real" where
  "spec_married_rule married coapplicant =
     (if married = JStr ''Yes'' \<and> coapplicant > 0 then 0.05 else 0)"

definition spec_area_rule :: "json \<Rightarrow> real" where
  "spec_area_rule area =
     (if area = JStr ''Semiurban'' then 0.05 else if area = JStr ''Rural'' then - 0.05 else 0)"

definition spec_clamp :: "real \<Rightarrow> real" where
  "spec_clamp x = max 0.05 (min 0.95 x)"

text \<open>The adjustments in the order of the specification, for a given adjustment of the
  EMI rule.\<close>

definition spec_adjustments :: "dict \<Rightarrow> loan_vars \<Rightarrow> real \<Rightarrow> real list" where
  "spec_adjustments data v emi_adjustment =
     [spec_credit_rule (credit_history v),
      spec_income_rule (income_to_loan v),
      emi_adjustment,
      spec_education_rule (dict_get data ''Education'' (JStr ''Graduate'')),
      spec_married_rule (dict_get data ''Married'' (JStr ''No'')) (coapplicant_income v),
      spec_area_rule (dict_get data ''Property_Area'' (JStr ''Urban''))]"

text \<open>The ratio of EMI to monthly income, the monthly income being the total income
  divided by 12.\<close>

definition emi_ratio :: "runtime \<Rightarrow> loan_vars \<Rightarrow> real" where
  "emi_ratio rt v = fdiv rt (emi v) (fdiv rt (total_income v) 12)"

text \<open>The score as the specification states it: it starts at 0.5, every rule is applied
  to every input, and the result is clamped. The ratio of EMI to monthly income has no
  value when the monthly income is zero; nothing below depends on the value the quotient
  takes there.\<close>

definition spec_loan_score :: "runtime \<Rightarrow> dict \<Rightarrow> loan_vars \<Rightarrow> real" where
  "spec_loan_score rt data v =
     spec_clamp (foldl (adjust rt) 0.5
       (spec_adjustments data v (spec_emi_rule (emi_ratio rt v))))"

text \<open>The same with the EMI rule applied to a positive monthly income only.\<close>

definition guarded_loan_score :: "runtime \<Rightarrow> dict \<Rightarrow> loan_vars \<Rightarrow> real" where
  "guarded_loan_score rt data v =
     spec_clamp (foldl (adjust rt) 0.5
       (spec_adjustments data v
          (if fdiv rt (total_income v) 12 > 0 then spec_emi_rule (emi_ratio rt v) else 0)))"

subsection \<open>Risk assessment: the shape of a factor\<close>

definition well_tagged :: "json \<Rightarrow> bool" where
  "well_tagged f =
     (field ''status'' f \<in> {JStr ''positive'', JStr ''neutral'', JStr ''negative''}
      \<and> (case field ''message'' f of JStr m \<Rightarrow> m \<noteq> [] | _ \<Rightarrow> False))"

subsection \<open>Loan calculator: the amortization formula\<close>



subsection \<open>Keyword fallback: the priority table\<close>

definition keyword_table :: "(string \<times> string list) list" where
  "keyword_table =
     [(''Food & Dining'', food_keywords),
      (''Transportation'', transport_keywords),
      (''Shopping'', shopping_keywords),
      (''Bills & Utilities'', bills_keywords),
      (''Entertainment'', entertainment_keywords),
      (''Healthcare'', healthcare_keywords),
      (''Education'', education_keywords),
      (''Travel'', travel_keywords)]"

text \<open>First match wins: the first row of the table one of whose keywords occurs in the
  lower-cased description.\<close>

definition spec_category_fallback :: "runtime \<Rightarrow> string \<Rightarrow> string \<times> real" where
  "spec_category_fallback rt description =
     (case find (\<lambda>row. any_in (snd row) (lower rt description)) keyword_table of
        Some row \<Rightarrow> (fst row, 0.85)
      | None \<Rightarrow> (''Others'', 0.50))"

section \<open>Basic facts about the Python operations\<close>

lemma fits_float_small [simp]: "\<bar>r\<bar> \<le> 2 ^ 64 \<Longrightarrow> fits_float r"
proof -
  have "(2::real) ^ 64 < 2 ^ 1024 - 2 ^ 970"
    by simp
  then show "\<bar>r\<bar> \<le> 2 ^ 64 \<Longrightarrow> fits_float r"
    by (simp add: fits_float_def)
qed

lemma no_parse_arithmetic [simp]:
  "fadd no_parse x y = x + y" "fsub no_parse x y = x - y" "fmul no_parse x y = x * y"
  "fdiv no_parse x y = x / y"
  by (simp_all add: no_parse_def)

lemma trunc_of_int [simp]: "trunc (of_int k) = k"
  by (simp add: trunc_def)

lemma try_bind_Inr [simp]: "try_bind (Inr v) f = f v"
  by (simp add: try_bind_def)

lemma try_bind_Inl [simp]: "try_bind (Inl e) f = Inl e"
  by (simp add: try_bind_def)

lemma catch500_Inr [simp]: "catch500 (Inr r) = r"
  by (simp add: catch500_def)

lemma catch500_Inl [simp]: "catch500 (Inl e) = (500, [(''error'', JStr (str_error e))])"
  by (simp add: catch500_def)

lemma as_dict_JObj [simp]: "as_dict (JObj d) = Inr d"
  by (simp add: as_dict_def)

lemma dict_get_present: "map_of d k = Some v \<Longrightarrow> dict_get d k dflt = v"
  by (simp add: dict_get_def)

lemma round_half_even_of_int [simp]: "round_half_even (of_int k) = k"
  by (simp add: round_half_even_def)

lemma round_half_even_numeral [simp]: "round_half_even (numeral n) = numeral n"
  by (simp add: round_half_even_def)

text \<open>Rounding is the identity on multiples of \<open>1/20\<close>, the grid of the simplified
  fraud score and of the sample loan scores.\<close>

lemma py_round_grid: "py_round (of_int k / 20) 4 = of_int k / 20"
proof -
  have "of_int k / 20 * 10 ^ 4 = (of_int (500 * k) :: real)"
    by simp
  then have "round_half_even (of_int k / 20 * 10 ^ 4) = 500 * k"
    by (simp only: round_half_even_of_int)
  then show ?thesis
    by (simp add: py_round_def)
qed

lemma on_grid_of_int: "on_grid (of_int k / 20)"
  by (auto simp: on_grid_def)

lemma on_grid_consts:
  "on_grid 0" "on_grid 0.05" "on_grid 0.1" "on_grid 0.15" "on_grid 0.2" "on_grid 0.25"
  "on_grid 0.3" "on_grid 0.35" "on_grid 0.5" "on_grid 0.95"
  using on_grid_of_int [of 0] on_grid_of_int [of 1] on_grid_of_int [of 2] on_grid_of_int [of 3]
    on_grid_of_int [of 4] on_grid_of_int [of 5] on_grid_of_int [of 6] on_grid_of_int [of 7]
    on_grid_of_int [of 10] on_grid_of_int [of 19]
  by simp_all

lemma on_grid_add: "on_grid x \<Longrightarrow> on_grid y \<Longrightarrow> on_grid (x + y)"
proof -
  assume "on_grid x" "on_grid y"
  then obtain k l :: int where "x = of_int k / 20" "y = of_int l / 20"
    by (auto simp: on_grid_def)
  then have "x + y = of_int (k + l) / 20"
    by (simp add: add_divide_distrib)
  then show ?thesis
    by (simp only: on_grid_of_int)
qed

lemma on_grid_if: "on_grid x \<Longrightarrow> on_grid y \<Longrightarrow> on_grid (if c then x else y)"
  by simp

lemma on_grid_min: "on_grid x \<Longrightarrow> on_grid y \<Longrightarrow> on_grid (min x y)"
  by (simp add: min_def)

lemma py_round_on_grid: "on_grid x \<Longrightarrow> py_round x 4 = x"
proof -
  assume "on_grid x"
  then obtain k :: int where "x = of_int k / 20"
    by (auto simp: on_grid_def)
  then show ?thesis
    by (simp only: py_round_grid)
qed

lemma py_round_3_10: "py_round 0.3 4 = 0.3"
  using py_round_grid [of 6] by simp

section \<open>Batch fraud scoring\<close>

text \<open>
  C1, as the code has it. A \<^verbatim>\<open>predict_fraud_batch\<close> request whose \<^verbatim>\<open>transactions\<close>
  array holds exactly one transaction with \<^verbatim>\<open>Amount = 6000\<close> and \<^verbatim>\<open>is_foreign\<close>
  absent or false is answered with one result whose \<^verbatim>\<open>fraud_probability\<close> is 0.3 and
  whose \<^verbatim>\<open>is_fraud\<close> is false (0.3 is not above the threshold 0.5); its risk level is
  LOW and nothing is flagged.
\<close>

theorem batch_amount_6000:
  assumes req: "map_of req ''transactions'' = Some (JArr [JObj tx])"
    and amount: "map_of tx ''Amount'' = Some (JNum 6000)"
    and foreign: "\<not> truthy (dict_get tx ''is_foreign'' (JBool False))"
  shows "predict_fraud_batch rt (JObj req) =
     (200, [(''success'', JBool True),
            (''results'',
               JArr [JObj [(''transaction_id'',
                              dict_get tx ''id'' (dict_get tx ''transaction_id'' JNull)),
                           (''is_fraud'', JBool False),
                           (''fraud_probability'', JNum 0.3),
                           (''risk_level'', JStr ''LOW'')]]),
            (''total'', JNum 1),
            (''flagged'', JNum 0)])"
proof -
  have a: "dict_get tx ''Amount'' (dict_get tx ''amount'' (JNum 0)) = JNum 6000"
    using amount by (rule dict_get_present)
  have r: "batch_result rt (JObj tx) =
     Inr [(''transaction_id'', dict_get tx ''id'' (dict_get tx ''transaction_id'' JNull)),
          (''is_fraud'', JBool False),
          (''fraud_probability'', JNum 0.3),
          (''risk_level'', JStr ''LOW'')]"
    using foreign by (simp add: batch_result_def a py_round_3_10 risk_level_def)
  have t: "dict_get req ''transactions'' (JArr []) = JArr [JObj tx]"
    using req by (rule dict_get_present)
  have f: "\<not> is_flagged
     [(''transaction_id'', dict_get tx ''id'' (dict_get tx ''transaction_id'' JNull)),
      (''is_fraud'', JBool False),
      (''fraud_probability'', JNum 0.3),
      (''risk_level'', JStr ''LOW'')]"
    by (simp add: is_flagged_def dict_get_def)
  show ?thesis
    using f by (simp add: predict_fraud_batch_def t r)
qed

theorem batch_amount_6000_witness:
  "predict_fraud_batch no_parse
     (JObj [(''transactions'', JArr [JObj [(''id'', JStr ''t1''), (''Amount'', JNum 6000)]])]) =
   (200, [(''success'', JBool True),
          (''results'',
             JArr [JObj [(''transaction_id'', JStr ''t1''),
                         (''is_fraud'', JBool False),
                         (''fraud_probability'', JNum 0.3),
                         (''risk_level'', JStr ''LOW'')]]),
          (''total'', JNum 1),
          (''flagged'', JNum 0)])"
  using batch_amount_6000
    [of "[(''transactions'', JArr [JObj [(''id'', JStr ''t1''), (''Amount'', JNum 6000)]])]"
        "[(''id'', JStr ''t1''), (''Amount'', JNum 6000)]" no_parse]
  by (simp add: dict_get_def)

text \<open>The claim as the specification states it (\<^verbatim>\<open>is_fraud\<close> true) fails on the
  request that holds the one transaction \<^verbatim>\<open>{"Amount": 6000}\<close>.\<close>

theorem batch_amount_6000_counterexample:
  "map (field ''is_fraud'')
     (results_of (predict_fraud_batch no_parse
        (JObj [(''transactions'', JArr [JObj [(''Amount'', JNum 6000)]])]))) = [JBool False]
   \<and> map (field ''fraud_probability'')
     (results_of (predict_fraud_batch no_parse
        (JObj [(''transactions'', JArr [JObj [(''Amount'', JNum 6000)]])]))) = [JNum 0.3]"
  by (simp add: predict_fraud_batch_def batch_result_def is_flagged_def dict_get_def field_def
       results_of_def py_round_3_10 risk_level_def no_parse_def)

section \<open>Fraud scoring\<close>

lemma simplified_score_sum:
  "simplified_risk_score a h f r =
     min ((if amount_tier a = 3 then 0.3 else if amount_tier a = 2 then 0.15
           else if amount_tier a = 1 then 0.05 else 0)
          + (if extreme_amount a then 0.2 else 0)
          + (if late_hour h then 0.1 else 0)
          + (if f then 0.15 else 0)
          + (if r then 0.25 else 0)) 0.95"
  by (simp add: simplified_risk_score_def amount_tier_def extreme_amount_def late_hour_def)

lemma simplified_score_on_grid: "on_grid (simplified_risk_score a h f r)"
  unfolding simplified_score_sum
  by (intro on_grid_min on_grid_add on_grid_if on_grid_consts)

lemma simplified_score_le: "simplified_risk_score a h f r \<le> 0.95"
  by (simp add: simplified_score_sum)

lemma simplified_score_mono:
  assumes "amount_tier a \<le> amount_tier a'"
    and "extreme_amount a \<longrightarrow> extreme_amount a'"
    and "late_hour h \<longrightarrow> late_hour h'"
    and "f \<longrightarrow> f'"
    and "r \<longrightarrow> r'"
  shows "simplified_risk_score a h f r \<le> simplified_risk_score a' h' f' r'"
proof -
  have t: "(if amount_tier a = 3 then 0.3 else if amount_tier a = 2 then 0.15
            else if amount_tier a = 1 then 0.05 else (0::real))
         \<le> (if amount_tier a' = 3 then 0.3 else if amount_tier a' = 2 then 0.15
            else if amount_tier a' = 1 then 0.05 else 0)"
    using assms(1) by (auto simp: amount_tier_def split: if_splits)
  have x: "(if extreme_amount a then 0.2 else (0::real)) \<le> (if extreme_amount a' then 0.2 else 0)"
    using assms(2) by simp
  have l: "(if late_hour h then 0.1 else (0::real)) \<le> (if late_hour h' then 0.1 else 0)"
    using assms(3) by simp
  have g: "(if f then 0.15 else (0::real)) \<le> (if f' then 0.15 else 0)"
    using assms(4) by simp
  have p: "(if r then 0.25 else (0::real)) \<le> (if r' then 0.25 else 0)"
    using assms(5) by simp
  show ?thesis
    unfolding simplified_score_sum
    by (intro min.mono add_mono t x l g p order_refl)
qed

text \<open>
  C3. Take two simplified-mode requests to \<^verbatim>\<open>predict_fraud\<close> such that every
  risk-boosting predicate that holds of the first holds of the second: the amount tier of
  the second (above 1000, above 2000, above 5000) is at least that of the first, and
  "amount below 1 or above 10000", "hour below 6 or above 23", \<^verbatim>\<open>is_foreign\<close> and
  \<^verbatim>\<open>rapid_transactions\<close> hold of the second whenever they hold of the first. Then both
  are answered with status 200, the \<^verbatim>\<open>fraud_probability\<close> returned for the first is at
  most the one returned for the second, and that is at most 0.95. Turning a single
  predicate from false to true is the case where the other predicates agree.
\<close>

theorem simplified_fraud_monotone:
  assumes flag: "d \<noteq> []" "truthy (dict_get d ''simplified'' (JBool False))"
      "d' \<noteq> []" "truthy (dict_get d' ''simplified'' (JBool False))"
    and amounts: "py_float rt (dict_get d ''Amount'' (JNum 0)) = Inr a"
      "py_float rt (dict_get d' ''Amount'' (JNum 0)) = Inr a'"
    and hours: "py_num (dict_get d ''hour'' (JNum 12)) = Inr h"
      "py_num (dict_get d' ''hour'' (JNum 12)) = Inr h'"
    and tier: "amount_tier a \<le> amount_tier a'"
    and extreme: "extreme_amount a \<longrightarrow> extreme_amount a'"
    and late: "late_hour h \<longrightarrow> late_hour h'"
    and foreign: "truthy (dict_get d ''is_foreign'' (JBool False))
        \<longrightarrow> truthy (dict_get d' ''is_foreign'' (JBool False))"
    and rapid: "truthy (dict_get d ''rapid_transactions'' (JBool False))
        \<longrightarrow> truthy (dict_get d' ''rapid_transactions'' (JBool False))"
  shows "\<exists>p p'.
     predict_fraud e rt (JObj d) =
       (200, [(''is_fraud'', JBool (p > 0.5)), (''fraud_probability'', JNum p),
              (''risk_level'', JStr (risk_level p)), (''model_type'', JStr ''heuristic'')])
     \<and> predict_fraud e rt (JObj d') =
       (200, [(''is_fraud'', JBool (p' > 0.5)), (''fraud_probability'', JNum p'),
              (''risk_level'', JStr (risk_level p')), (''model_type'', JStr ''heuristic'')])
     \<and> p \<le> p' \<and> p' \<le> 0.95"
proof -
  let ?s = "simplified_risk_score a h (truthy (dict_get d ''is_foreign'' (JBool False)))
              (truthy (dict_get d ''rapid_transactions'' (JBool False)))"
  let ?s' = "simplified_risk_score a' h' (truthy (dict_get d' ''is_foreign'' (JBool False)))
              (truthy (dict_get d' ''rapid_transactions'' (JBool False)))"
  have r: "py_round ?s 4 = ?s" "py_round ?s' 4 = ?s'"
    by (rule py_round_on_grid, rule simplified_score_on_grid)+
  have 1: "predict_fraud e rt (JObj d) =
       (200, [(''is_fraud'', JBool (?s > 0.5)), (''fraud_probability'', JNum ?s),
              (''risk_level'', JStr (risk_level ?s)), (''model_type'', JStr ''heuristic'')])"
    using flag by (simp add: predict_fraud_def fraud_simplified_def amounts hours r Let_def)
  have 2: "predict_fraud e rt (JObj d') =
       (200, [(''is_fraud'', JBool (?s' > 0.5)), (''fraud_probability'', JNum ?s'),
              (''risk_level'', JStr (risk_level ?s')), (''model_type'', JStr ''heuristic'')])"
    using flag by (simp add: predict_fraud_def fraud_simplified_def amounts hours r Let_def)
  have 3: "?s \<le> ?s'"
    using tier extreme late foreign rapid by (rule simplified_score_mono)
  have 4: "?s' \<le> 0.95"
    by (rule simplified_score_le)
  show ?thesis
    using 1 2 3 4 by blast
qed

theorem simplified_fraud_monotone_witness:
  "\<exists>p p'.
     predict_fraud no_models no_parse (JObj [(''simplified'', JBool True), (''Amount'', JNum 6000)]) =
       (200, [(''is_fraud'', JBool (p > 0.5)), (''fraud_probability'', JNum p),
              (''risk_level'', JStr (risk_level p)), (''model_type'', JStr ''heuristic'')])
     \<and> predict_fraud no_models no_parse
          (JObj [(''simplified'', JBool True), (''Amount'', JNum 6000), (''is_foreign'', JBool True)]) =
       (200, [(''is_fraud'', JBool (p' > 0.5)), (''fraud_probability'', JNum p'),
              (''risk_level'', JStr (risk_level p')), (''model_type'', JStr ''heuristic'')])
     \<and> p \<le> p' \<and> p' \<le> 0.95"
  using simplified_fraud_monotone
    [of "[(''simplified'', JBool True), (''Amount'', JNum 6000)]"
        "[(''simplified'', JBool True), (''Amount'', JNum 6000), (''is_foreign'', JBool True)]"
        no_parse 6000 6000 12 12 no_models]
  by (simp add: dict_get_def)

text \<open>
  C8. When \<^verbatim>\<open>predict_fraud\<close> receives a non-empty body whose \<^verbatim>\<open>simplified\<close> flag is
  absent or false, and no fraud model is loaded, it answers with status 503 and the body
  \<^verbatim>\<open>error\<close>, \<^verbatim>\<open>fallback = true\<close>, \<^verbatim>\<open>is_fraud = false\<close>, \<^verbatim>\<open>fraud_probability = 0.0\<close>.
\<close>

theorem fraud_model_unavailable:
  assumes "d \<noteq> []"
    and "\<not> truthy (dict_get d ''simplified'' (JBool False))"
    and "fraud_model e = None"
  shows "predict_fraud e rt (JObj d) =
     (503, [(''error'', JStr ''Fraud detection model not loaded''),
            (''fallback'', JBool True),
            (''is_fraud'', JBool False),
            (''fraud_probability'', JNum 0)])"
  using assms by (simp add: predict_fraud_def fraud_full_def)

theorem fraud_model_unavailable_witness:
  "predict_fraud no_models no_parse (JObj [(''Amount'', JNum 120)]) =
     (503, [(''error'', JStr ''Fraud detection model not loaded''),
            (''fallback'', JBool True),
            (''is_fraud'', JBool False),
            (''fraud_probability'', JNum 0)])"
  using fraud_model_unavailable [of "[(''Amount'', JNum 120)]" no_models no_parse]
  by (simp add: dict_get_def no_models_def)

section \<open>Loan scoring\<close>

lemma loan_extract_incomes:
  assumes "loan_extract rt d = Inr v"
  shows "py_float rt (dict_get d ''ApplicantIncome'' (JNum 0)) = Inr (applicant_income v)"
    and "py_float rt (dict_get d ''CoapplicantIncome'' (JNum 0)) = Inr (coapplicant_income v)"
    and "total_income v = fadd rt (applicant_income v) (coapplicant_income v)"
  using assms
  by (auto simp: loan_extract_def try_bind_def Let_def split: sum.splits)

lemma field_factor:
  "field ''factor'' (factor n s m) = JStr n"
  "field ''status'' (factor n s m) = JStr s"
  "field ''message'' (factor n s m) = JStr m"
  by (simp_all add: field_def factor_def dict_get_def)

lemma well_tagged_factor:
  "well_tagged (factor n s m) \<longleftrightarrow> s \<in> {''positive'', ''neutral'', ''negative''} \<and> m \<noteq> []"
  by (simp add: well_tagged_def field_factor)

lemma get_risk_factors_shape:
  assumes "py_float rt (dict_get d ''ApplicantIncome'' (JNum 0)) = Inr ai"
    and "py_float rt (dict_get d ''CoapplicantIncome'' (JNum 0)) = Inr ci"
  shows "\<exists>risk. get_risk_factors rt d e i c = Inr risk
     \<and> map (field ''factor'') risk =
         (if fdiv rt (fadd rt ai ci) 12 > 0
          then [JStr ''Credit History'', JStr ''Income-to-Loan Ratio'', JStr ''EMI Affordability'']
          else [JStr ''Credit History'', JStr ''Income-to-Loan Ratio''])
     \<and> list_all well_tagged risk"
  by (simp add: get_risk_factors_def assms Let_def field_factor well_tagged_factor)

lemma loan_risk_shape:
  assumes "loan_extract rt d = Inr v"
  shows "\<exists>risk. get_risk_factors rt d (emi v) (income_to_loan v) (credit_history v) = Inr risk
     \<and> map (field ''factor'') risk =
         (if fdiv rt (total_income v) 12 > 0
          then [JStr ''Credit History'', JStr ''Income-to-Loan Ratio'', JStr ''EMI Affordability'']
          else [JStr ''Credit History'', JStr ''Income-to-Loan Ratio''])
     \<and> list_all well_tagged risk"
  using get_risk_factors_shape [OF loan_extract_incomes(1,2) [OF assms]]
    loan_extract_incomes(3) [OF assms]
  by simp

lemma heuristic_path_response:
  assumes "get_risk_factors rt d (emi v) (income_to_loan v) (credit_history v) = Inr risk"
  shows "loan_heuristic_path rt d v =
     Inr (200, [(''is_approved'', JBool (heuristic_score rt d v \<ge> 0.5)),
                (''approval_probability'', JNum (py_round (heuristic_score rt d v) 4)),
                (''risk_assessment'', JArr risk),
                (''model_type'', JStr ''heuristic'')])"
  by (simp add: loan_heuristic_path_def assms Let_def)

lemma adjust_if:
  "adjust rt s (if c then a else b) = (if c then adjust rt s a else adjust rt s b)"
  by simp

lemma adjust_amounts:
  "adjust rt s 0.25 = fadd rt s 0.25" "adjust rt s (- 0.35) = fsub rt s 0.35"
  "adjust rt s 0.15 = fadd rt s 0.15" "adjust rt s 0.1 = fadd rt s 0.1"
  "adjust rt s 0.05 = fadd rt s 0.05" "adjust rt s (- 0.15) = fsub rt s 0.15"
  "adjust rt s (- 0.1) = fsub rt s 0.1" "adjust rt s (- 0.05) = fsub rt s 0.05"
  "adjust rt s 0 = s"
  by (simp_all add: adjust_def)

text \<open>The score of the code is the score of the rules, the EMI rule guarded.\<close>

lemma heuristic_score_rules: "heuristic_score rt d v = guarded_loan_score rt d v"
  unfolding heuristic_score_def guarded_loan_score_def spec_adjustments_def spec_clamp_def
    spec_credit_rule_def spec_income_rule_def spec_emi_rule_def spec_education_rule_def
    spec_married_rule_def spec_area_rule_def emi_ratio_def Let_def foldl_Cons foldl_Nil
  by (simp only: adjust_if adjust_amounts)

lemma spec_clamp_range: "0.05 \<le> spec_clamp x \<and> spec_clamp x \<le> 0.95"
  unfolding spec_clamp_def max_def min_def by simp

lemma guarded_is_spec:
  "fdiv rt (total_income v) 12 > 0 \<Longrightarrow> guarded_loan_score rt d v = spec_loan_score rt d v"
  by (simp add: guarded_loan_score_def spec_loan_score_def)

lemma model_path_fails:
  assumes "\<not> model_answers m (loan_features d v)"
  shows "\<exists>err. loan_model_path m rt d v = Inl err"
  using assms
  by (auto simp: model_answers_def loan_model_path_def raising_def int_to_float_def
      split: option.splits sum.splits)

lemma model_path_response:
  assumes "get_risk_factors rt d (emi v) (income_to_loan v) (credit_history v) = Inr risk"
    and "model_answers m (loan_features d v)"
  shows "\<exists>approved probability. loan_model_path m rt d v =
     Inr (200, [(''is_approved'', approved),
                (''approval_probability'', probability),
                (''risk_assessment'', JArr risk),
                (''model_type'', JStr ''ml_model'')])"
  using assms
  by (auto simp: model_answers_def loan_model_path_def raising_def int_to_float_def
      split: option.splits sum.splits)

lemma predict_loan_heuristic:
  assumes "d \<noteq> []" and "loan_extract rt d = Inr v"
    and "loan_model e = None \<or>
         (\<exists>m. loan_model e = Some m \<and> \<not> model_answers m (loan_features d v))"
  shows "predict_loan e rt (JObj d) = catch500 (loan_heuristic_path rt d v)"
proof (cases "loan_model e")
  case None
  then show ?thesis
    using assms(1,2) by (simp add: predict_loan_def)
next
  case (Some m)
  then have "\<not> model_answers m (loan_features d v)"
    using assms(3) by auto
  then obtain err where "loan_model_path m rt d v = Inl err"
    using model_path_fails by blast
  then show ?thesis
    using assms(1,2) Some by (simp add: predict_loan_def)
qed


text \<open>Once the fields are converted, \<^verbatim>\<open>predict_loan\<close> answers 200 on one of its two
  paths, with the risk factors of \<^verbatim>\<open>get_risk_factors\<close>.\<close>

lemma predict_loan_paths:
  assumes "d \<noteq> []" and "loan_extract rt d = Inr v"
  shows "\<exists>approved probability risk.
     predict_loan e rt (JObj d) =
       (200, [(''is_approved'', approved),
              (''approval_probability'', probability),
              (''risk_assessment'', JArr risk),
              (''model_type'',
                 JStr (case loan_model e of
                         None \<Rightarrow> ''heuristic''
                       | Some m \<Rightarrow> if model_answers m (loan_features d v)
                                  then ''ml_model'' else ''heuristic''))])
     \<and> map (field ''factor'') risk =
         (if fdiv rt (total_income v) 12 > 0
          then [JStr ''Credit History'', JStr ''Income-to-Loan Ratio'', JStr ''EMI Affordability'']
          else [JStr ''Credit History'', JStr ''Income-to-Loan Ratio''])
     \<and> list_all well_tagged risk"
proof -
  obtain risk where
    risk: "get_risk_factors rt d (emi v) (income_to_loan v) (credit_history v) = Inr risk"
    and shape: "map (field ''factor'') risk =
         (if fdiv rt (total_income v) 12 > 0
          then [JStr ''Credit History'', JStr ''Income-to-Loan Ratio'', JStr ''EMI Affordability'']
          else [JStr ''Credit History'', JStr ''Income-to-Loan Ratio''])"
      "list_all well_tagged risk"
    using loan_risk_shape [OF assms(2)] by blast
  show ?thesis
  proof (cases "loan_model e = None \<or>
         (\<exists>m. loan_model e = Some m \<and> \<not> model_answers m (loan_features d v))")
    case True
    have "predict_loan e rt (JObj d) =
            (200, [(''is_approved'', JBool (heuristic_score rt d v \<ge> 0.5)),
                   (''approval_probability'', JNum (py_round (heuristic_score rt d v) 4)),
                   (''risk_assessment'', JArr risk),
                   (''model_type'', JStr ''heuristic'')])"
      by (simp add: predict_loan_heuristic [OF assms True] heuristic_path_response [OF risk])
    moreover have "(case loan_model e of
                         None \<Rightarrow> ''heuristic''
                       | Some m \<Rightarrow> if model_answers m (loan_features d v)
                                  then ''ml_model'' else ''heuristic'') = ''heuristic''"
      using True by (auto split: option.splits)
    ultimately show ?thesis
      using shape by (simp only:) blast
  next
    case False
    then obtain m where m: "loan_model e = Some m"
      and a: "model_answers m (loan_features d v)"
      by auto
    obtain approved probability where "loan_model_path m rt d v =
     Inr (200, [(''is_approved'', approved),
                (''approval_probability'', probability),
                (''risk_assessment'', JArr risk),
                (''model_type'', JStr ''ml_model'')])"
      using model_path_response [OF risk a] by blast
    then have "predict_loan e rt (JObj d) =
       (200, [(''is_approved'', approved),
              (''approval_probability'', probability),
              (''risk_assessment'', JArr risk),
              (''model_type'', JStr ''ml_model'')])"
      using assms by (simp add: predict_loan_def m)
    moreover have "(case loan_model e of
                         None \<Rightarrow> ''heuristic''
                       | Some m \<Rightarrow> if model_answers m (loan_features d v)
                                  then ''ml_model'' else ''heuristic'') = ''ml_model''"
      using m a by simp
    ultimately show ?thesis
      using shape by (simp only:) blast
  qed
qed

subsection \<open>The sample applications\<close>

lemma sample_extract:
  "loan_extract no_parse [(''ApplicantIncome'', JNum 5000), (''LoanAmount'', JNum 100)] =
     Inr sample_vars"
  by (simp add: loan_extract_def dict_get_def py_div_def trunc_def sample_vars_def
      int_to_float_def fits_float_def)

lemma negative_income_extract:
  "loan_extract no_parse [(''ApplicantIncome'', JNum (- 1200))] = Inr negative_income_vars"
  by (simp add: loan_extract_def dict_get_def py_div_def trunc_def negative_income_vars_def
      int_to_float_def fits_float_def)

lemma no_income_extract:
  "loan_extract no_parse [(''LoanAmount'', JNum 100)] = Inr no_income_vars"
  by (simp add: loan_extract_def dict_get_def py_div_def trunc_def no_income_vars_def
      int_to_float_def fits_float_def)





lemma negative_income_risk:
  "get_risk_factors no_parse [(''ApplicantIncome'', JNum (- 1200))] (1 / 360) (- 600) 1 =
   Inr [factor ''Credit History'' ''positive'' ''Good credit history'',
        factor ''Income-to-Loan Ratio'' ''negative'' ''Low ratio: -600.0x'']"
  by (simp add: get_risk_factors_def dict_get_def fmt1_def round_half_even_def
      string_of_nat.simps)

lemma no_income_risk:
  "get_risk_factors no_parse [(''LoanAmount'', JNum 100)] (5 / 18) 0 1 =
   Inr [factor ''Credit History'' ''positive'' ''Good credit history'',
        factor ''Income-to-Loan Ratio'' ''negative'' ''Low ratio: 0.0x'']"
  by (simp add: get_risk_factors_def dict_get_def fmt1_def round_half_even_def
      string_of_nat.simps)

lemma sample_score:
  "heuristic_score no_parse [(''ApplicantIncome'', JNum 5000), (''LoanAmount'', JNum 100)] sample_vars
     = 0.95"
  by (simp add: heuristic_score_def sample_vars_def dict_get_def)

lemma negative_income_score:
  "heuristic_score no_parse [(''ApplicantIncome'', JNum (- 1200))] negative_income_vars = 0.65"
  by (simp add: heuristic_score_def negative_income_vars_def dict_get_def)

lemma negative_income_spec_score:
  "spec_loan_score no_parse [(''ApplicantIncome'', JNum (- 1200))] negative_income_vars = 0.75"
  by (simp add: spec_loan_score_def spec_adjustments_def spec_clamp_def adjust_def
      spec_credit_rule_def spec_income_rule_def spec_emi_rule_def spec_education_rule_def
      spec_married_rule_def spec_area_rule_def emi_ratio_def negative_income_vars_def
      dict_get_def)

lemma no_income_score: "heuristic_score no_parse [(''LoanAmount'', JNum 100)] no_income_vars = 0.65"
  by (simp add: heuristic_score_def no_income_vars_def dict_get_def)



text \<open>
  C2, as the code has it. Take a non-empty request to \<^verbatim>\<open>predict_loan\<close> that gets
  past the input conversion. When the heuristic path runs (no loan model is loaded, or
  the inner \<^verbatim>\<open>try\<close> of the model path raised), the response has status 200 and
  \<^verbatim>\<open>model_type = heuristic\<close>. Its score starts at 0.5, is adjusted in
  this order by the credit-history, income-to-loan, EMI-ratio, education,
  married-with-coapplicant and property-area rules, the EMI-ratio rule being applied only
  when the monthly income (the total income divided by 12) is positive, and is clamped
  into [0.05, 0.95]; \<^verbatim>\<open>is_approved\<close> holds if and only if that score is at least 0.5,
  and \<^verbatim>\<open>approval_probability\<close> is the score rounded to 4 decimals. For a positive
  monthly income this is the score of the specification. The sums, differences and
  quotients are those of the runtime, whatever their rounding.
\<close>

theorem loan_heuristic_rules:
  assumes "d \<noteq> []" and "loan_extract rt d = Inr v"
    and "loan_model e = None \<or>
         (\<exists>m. loan_model e = Some m \<and> \<not> model_answers m (loan_features d v))"
  shows "(\<exists>risk. predict_loan e rt (JObj d) =
            (200, [(''is_approved'', JBool (guarded_loan_score rt d v \<ge> 0.5)),
                   (''approval_probability'', JNum (py_round (guarded_loan_score rt d v) 4)),
                   (''risk_assessment'', JArr risk),
                   (''model_type'', JStr ''heuristic'')]))
     \<and> 0.05 \<le> guarded_loan_score rt d v \<and> guarded_loan_score rt d v \<le> 0.95
     \<and> (fdiv rt (total_income v) 12 > 0
          \<longrightarrow> guarded_loan_score rt d v = spec_loan_score rt d v)"
proof -
  obtain risk where
    "get_risk_factors rt d (emi v) (income_to_loan v) (credit_history v) = Inr risk"
    using loan_risk_shape [OF assms(2)] by blast
  then have "predict_loan e rt (JObj d) =
            (200, [(''is_approved'', JBool (guarded_loan_score rt d v \<ge> 0.5)),
                   (''approval_probability'', JNum (py_round (guarded_loan_score rt d v) 4)),
                   (''risk_assessment'', JArr risk),
                   (''model_type'', JStr ''heuristic'')])"
    by (simp add: predict_loan_heuristic [OF assms] heuristic_path_response
        heuristic_score_rules)
  moreover have "0.05 \<le> guarded_loan_score rt d v \<and> guarded_loan_score rt d v \<le> 0.95"
    unfolding guarded_loan_score_def by (rule spec_clamp_range)
  ultimately show ?thesis
    using guarded_is_spec by blast
qed

theorem loan_heuristic_rules_witness:
  "(\<exists>risk. predict_loan no_models no_parse
              (JObj [(''ApplicantIncome'', JNum 5000), (''LoanAmount'', JNum 100)]) =
            (200, [(''is_approved'', JBool True),
                   (''approval_probability'', JNum 0.95),
                   (''risk_assessment'', JArr risk),
                   (''model_type'', JStr ''heuristic'')]))
   \<and> spec_loan_score no_parse [(''ApplicantIncome'', JNum 5000), (''LoanAmount'', JNum 100)]
        sample_vars = 0.95"
proof -
  have s: "guarded_loan_score no_parse
             [(''ApplicantIncome'', JNum 5000), (''LoanAmount'', JNum 100)] sample_vars = 19 / 20"
    using sample_score by (simp only: heuristic_score_rules) simp
  have p: "py_round (19 / 20) 4 = 19 / 20"
    using py_round_grid [of 19] by simp
  have t: "fdiv no_parse (total_income sample_vars) 12 > 0"
    by (simp add: sample_vars_def)
  have m: "loan_model no_models = None"
    by (simp add: no_models_def)
  show ?thesis
    using loan_heuristic_rules
      [of "[(''ApplicantIncome'', JNum 5000), (''LoanAmount'', JNum 100)]"
          no_parse sample_vars no_models] sample_extract t m
    by (simp add: s p)
qed

text \<open>The claim as stated applies the EMI-ratio rule to every input. For an applicant
  income of \<open>-1200\<close> the ratio of EMI to monthly income is negative, hence below 0.2;
  the stated rules give 0.75, the code leaves the EMI rule out and returns 0.65.\<close>

theorem loan_heuristic_rules_counterexample:
  "loan_extract no_parse [(''ApplicantIncome'', JNum (- 1200))] = Inr negative_income_vars
   \<and> predict_loan no_models no_parse (JObj [(''ApplicantIncome'', JNum (- 1200))]) =
       (200, [(''is_approved'', JBool True),
              (''approval_probability'', JNum 0.65),
              (''risk_assessment'',
                 JArr [factor ''Credit History'' ''positive'' ''Good credit history'',
                       factor ''Income-to-Loan Ratio'' ''negative'' ''Low ratio: -600.0x'']),
              (''model_type'', JStr ''heuristic'')])
   \<and> spec_loan_score no_parse [(''ApplicantIncome'', JNum (- 1200))] negative_income_vars
        = 0.75"
proof -
  have r: "get_risk_factors no_parse [(''ApplicantIncome'', JNum (- 1200))]
      (emi negative_income_vars) (income_to_loan negative_income_vars)
      (credit_history negative_income_vars) =
    Inr [factor ''Credit History'' ''positive'' ''Good credit history'',
         factor ''Income-to-Loan Ratio'' ''negative'' ''Low ratio: -600.0x'']"
    using negative_income_risk by (simp add: negative_income_vars_def)
  have p: "py_round (13 / 20) 4 = 13 / 20"
    using py_round_grid [of 13] by simp
  have "predict_loan no_models no_parse (JObj [(''ApplicantIncome'', JNum (- 1200))]) =
      catch500 (loan_heuristic_path no_parse [(''ApplicantIncome'', JNum (- 1200))]
        negative_income_vars)"
    by (simp add: predict_loan_def negative_income_extract no_models_def)
  then have "predict_loan no_models no_parse (JObj [(''ApplicantIncome'', JNum (- 1200))]) =
       (200, [(''is_approved'', JBool True),
              (''approval_probability'', JNum 0.65),
              (''risk_assessment'',
                 JArr [factor ''Credit History'' ''positive'' ''Good credit history'',
                       factor ''Income-to-Loan Ratio'' ''negative'' ''Low ratio: -600.0x'']),
              (''model_type'', JStr ''heuristic'')])"
    by (simp add: heuristic_path_response [OF r] negative_income_score p)
  then show ?thesis
    using negative_income_extract negative_income_spec_score by simp
qed

text \<open>
  C5, as the code has it. Whenever \<^verbatim>\<open>predict_loan\<close> gets past its input conversion, on
  the model path and on the heuristic path alike, it answers with status 200 and a
  \<^verbatim>\<open>risk_assessment\<close> list whose factors are Credit History and Income-to-Loan Ratio,
  followed by EMI Affordability exactly when the monthly income (the total income divided
  by 12) is positive: three factors for a positive income, two otherwise. Each factor is
  tagged positive, neutral or negative and has a non-empty message.
\<close>

theorem risk_assessment_shape:
  assumes "d \<noteq> []" and "loan_extract rt d = Inr v"
  shows "\<exists>approved probability risk model_type.
     predict_loan e rt (JObj d) =
       (200, [(''is_approved'', approved),
              (''approval_probability'', probability),
              (''risk_assessment'', JArr risk),
              (''model_type'', JStr model_type)])
     \<and> model_type \<in> {''ml_model'', ''heuristic''}
     \<and> map (field ''factor'') risk =
         (if fdiv rt (total_income v) 12 > 0
          then [JStr ''Credit History'', JStr ''Income-to-Loan Ratio'', JStr ''EMI Affordability'']
          else [JStr ''Credit History'', JStr ''Income-to-Loan Ratio''])
     \<and> list_all well_tagged risk"
proof -
  obtain approved probability risk model_type where
    "predict_loan e rt (JObj d) =
       (200, [(''is_approved'', approved),
              (''approval_probability'', probability),
              (''risk_assessment'', JArr risk),
              (''model_type'', JStr model_type)])"
    and "model_type = (case loan_model e of
                         None \<Rightarrow> ''heuristic''
                       | Some m \<Rightarrow> if model_answers m (loan_features d v)
                                  then ''ml_model'' else ''heuristic'')"
    and "map (field ''factor'') risk =
         (if fdiv rt (total_income v) 12 > 0
          then [JStr ''Credit History'', JStr ''Income-to-Loan Ratio'', JStr ''EMI Affordability'']
          else [JStr ''Credit History'', JStr ''Income-to-Loan Ratio''])"
    and "list_all well_tagged risk"
    using predict_loan_paths [OF assms, of e] by blast
  moreover from this have "model_type \<in> {''ml_model'', ''heuristic''}"
    by (simp split: option.splits)
  ultimately show ?thesis
    by blast
qed

theorem risk_assessment_shape_witness:
  "\<exists>approved probability risk model_type.
     predict_loan (with_loan_model proba_failing_model) no_parse
        (JObj [(''ApplicantIncome'', JNum 5000), (''LoanAmount'', JNum 100)]) =
       (200, [(''is_approved'', approved),
              (''approval_probability'', probability),
              (''risk_assessment'', JArr risk),
              (''model_type'', JStr model_type)])
     \<and> model_type \<in> {''ml_model'', ''heuristic''}
     \<and> map (field ''factor'') risk =
          [JStr ''Credit History'', JStr ''Income-to-Loan Ratio'', JStr ''EMI Affordability'']
     \<and> list_all well_tagged risk"
proof -
  have t: "fdiv no_parse (total_income sample_vars) 12 > 0"
    by (simp add: sample_vars_def)
  show ?thesis
    using risk_assessment_shape
      [of "[(''ApplicantIncome'', JNum 5000), (''LoanAmount'', JNum 100)]"
          no_parse sample_vars "with_loan_model proba_failing_model"] sample_extract t
    by simp
qed

text \<open>The claim as stated (always three factors) fails on an application that gives no
  income: \<^verbatim>\<open>{"LoanAmount": 100}\<close>.\<close>

theorem risk_assessment_shape_counterexample:
  "predict_loan no_models no_parse (JObj [(''LoanAmount'', JNum 100)]) =
       (200, [(''is_approved'', JBool True),
              (''approval_probability'', JNum 0.65),
              (''risk_assessment'',
                 JArr [factor ''Credit History'' ''positive'' ''Good credit history'',
                       factor ''Income-to-Loan Ratio'' ''negative'' ''Low ratio: 0.0x'']),
              (''model_type'', JStr ''heuristic'')])
   \<and> length (risk_assessment_of
        (predict_loan no_models no_parse (JObj [(''LoanAmount'', JNum 100)]))) = 2"
proof -
  have r: "get_risk_factors no_parse [(''LoanAmount'', JNum 100)]
      (emi no_income_vars) (income_to_loan no_income_vars) (credit_history no_income_vars) =
    Inr [factor ''Credit History'' ''positive'' ''Good credit history'',
         factor ''Income-to-Loan Ratio'' ''negative'' ''Low ratio: 0.0x'']"
    using no_income_risk by (simp add: no_income_vars_def)
  have p: "py_round (13 / 20) 4 = 13 / 20"
    using py_round_grid [of 13] by simp
  have "predict_loan no_models no_parse (JObj [(''LoanAmount'', JNum 100)]) =
      catch500 (loan_heuristic_path no_parse [(''LoanAmount'', JNum 100)] no_income_vars)"
    by (simp add: predict_loan_def no_income_extract no_models_def)
  then have "predict_loan no_models no_parse (JObj [(''LoanAmount'', JNum 100)]) =
       (200, [(''is_approved'', JBool True),
              (''approval_probability'', JNum 0.65),
              (''risk_assessment'',
                 JArr [factor ''Credit History'' ''positive'' ''Good credit history'',
                       factor ''Income-to-Loan Ratio'' ''negative'' ''Low ratio: 0.0x'']),
              (''model_type'', JStr ''heuristic'')])"
    by (simp add: heuristic_path_response [OF r] no_income_score p)
  then show ?thesis
    by (simp add: risk_assessment_of_def field_def dict_get_def)
qed




section \<open>Loan calculator\<close>













section \<open>Expense categorization\<close>

lemma starts_with_iff: "starts_with s kw \<longleftrightarrow> (\<exists>q. s = kw @ q)"
  by (induction s kw rule: starts_with.induct) auto

text \<open>\<open>py_in\<close> is the substring test.\<close>

lemma py_in_iff: "py_in kw s \<longleftrightarrow> (\<exists>p q. s = p @ kw @ q)"
proof (induction s)
  case Nil
  then show ?case by auto
next
  case (Cons c cs)
  show ?case
  proof
    assume "py_in kw (c # cs)"
    then consider "starts_with (c # cs) kw" | "py_in kw cs"
      by auto
    then show "\<exists>p q. c # cs = p @ kw @ q"
    proof cases
      case 1
      then obtain q where "c # cs = kw @ q"
        by (auto simp: starts_with_iff)
      then have "c # cs = [] @ kw @ q"
        by simp
      then show ?thesis by blast
    next
      case 2
      then obtain p q where "cs = p @ kw @ q"
        using Cons.IH by blast
      then have "c # cs = (c # p) @ kw @ q"
        by simp
      then show ?thesis by blast
    qed
  next
    assume "\<exists>p q. c # cs = p @ kw @ q"
    then obtain p q where pq: "c # cs = p @ kw @ q"
      by blast
    show "py_in kw (c # cs)"
    proof (cases p)
      case Nil
      then have "starts_with (c # cs) kw"
        using pq by (auto simp: starts_with_iff)
      then show ?thesis by simp
    next
      case (Cons a p')
      then have "cs = p' @ kw @ q"
        using pq by simp
      then have "py_in kw cs"
        using Cons.IH by blast
      then show ?thesis by simp
    qed
  qed
qed

lemma any_in_iff: "any_in kws s \<longleftrightarrow> (\<exists>kw \<in> set kws. \<exists>p q. s = p @ kw @ q)"
  by (simp add: any_in_def list_ex_iff py_in_iff)

lemma fallback_first_match: "get_category_fallback rt d = spec_category_fallback rt d"
  by (simp add: get_category_fallback_def spec_category_fallback_def keyword_table_def Let_def)

lemma fallback_cases:
  "get_category_fallback rt d \<in>
     {(''Food & Dining'', 0.85), (''Transportation'', 0.85), (''Shopping'', 0.85),
      (''Bills & Utilities'', 0.85), (''Entertainment'', 0.85), (''Healthcare'', 0.85),
      (''Education'', 0.85), (''Travel'', 0.85), (''Others'', 0.50)}"
  by (simp add: get_category_fallback_def Let_def)

lemma swiggy_lower: "lower rt ''Swiggy order delivered Rs 450'' = ''swiggy order delivered rs 450''"
  by (simp add: lower_def is_ascii_def lower_char_def)

lemma swiggy_food: "any_in food_keywords ''swiggy order delivered rs 450''"
  by (simp add: any_in_def food_keywords_def)

lemma swiggy_fallback:
  "get_category_fallback rt ''Swiggy order delivered Rs 450'' = (''Food & Dining'', 0.85)"
  by (simp add: get_category_fallback_def swiggy_lower swiggy_food)

lemma swiggy_fallback_path:
  "expense_fallback_path rt (JStr ''Swiggy order delivered Rs 450'') = Inr (''Food & Dining'', 85)"
  by (simp add: expense_fallback_path_def swiggy_fallback)

lemma others_metadata:
  "dict_index CATEGORY_METADATA ''Others'' = Inr \<lparr>icon = ''category'', color = ''#6b7280''\<rparr>"
  by (simp add: dict_index_def CATEGORY_METADATA_def)

lemma food_metadata:
  "map_of CATEGORY_METADATA ''Food & Dining'' = Some \<lparr>icon = ''restaurant'', color = ''#ef4444''\<rparr>"
  by (simp add: CATEGORY_METADATA_def)

lemma py_round_85: "py_round 85 2 = 85"
  by (simp add: py_round_def)

lemma swiggy_response:
  assumes "classify e rt (JStr ''Swiggy order delivered Rs 450'') =
           expense_fallback_path rt (JStr ''Swiggy order delivered Rs 450'')"
  shows "categorize_expense e rt (JObj [(''description'', JStr ''Swiggy order delivered Rs 450'')]) =
     (200, [(''category'', JStr ''Food & Dining''),
            (''confidence'', JNum 85),
            (''icon'', JStr ''restaurant''),
            (''color'', JStr ''#ef4444''),
            (''model_used'', model_used e)])"
proof -
  have d: "dict_get [(''description'', JStr ''Swiggy order delivered Rs 450'')] ''description''
      (JStr []) = JStr ''Swiggy order delivered Rs 450''"
    by (simp add: dict_get_def)
  show ?thesis
    by (simp add: categorize_expense_def d assms swiggy_fallback_path others_metadata
        food_metadata py_round_85)
qed

lemma swiggy_batch_response:
  assumes "classify e rt (JStr ''Swiggy order delivered Rs 450'') =
           expense_fallback_path rt (JStr ''Swiggy order delivered Rs 450'')"
  shows "categorize_batch e rt
     (JObj [(''transactions'',
        JArr [JObj [(''id'', JStr ''txn1''),
                    (''description'', JStr ''Swiggy order delivered Rs 450'')]])]) =
     (200, [(''results'',
               JArr [JObj [(''id'', JStr ''txn1''),
                           (''description'', JStr ''Swiggy order delivered Rs 450''),
                           (''category'', JStr ''Food & Dining''),
                           (''confidence'', JNum 85),
                           (''icon'', JStr ''restaurant''),
                           (''color'', JStr ''#ef4444'')]]),
            (''count'', JNum 1),
            (''model_used'', model_used e)])"
proof -
  let ?txn = "[(''id'', JStr ''txn1''), (''description'', JStr ''Swiggy order delivered Rs 450'')]"
  have d: "dict_get ?txn ''description'' (JStr []) = JStr ''Swiggy order delivered Rs 450''"
    "dict_get ?txn ''id'' (JStr []) = JStr ''txn1''"
    by (simp_all add: dict_get_def)
  have i: "categorize_item e rt (JObj ?txn) =
     Inr [(''id'', JStr ''txn1''),
          (''description'', JStr ''Swiggy order delivered Rs 450''),
          (''category'', JStr ''Food & Dining''),
          (''confidence'', JNum 85),
          (''icon'', JStr ''restaurant''),
          (''color'', JStr ''#ef4444'')]"
    by (simp add: categorize_item_def d assms swiggy_fallback_path others_metadata
        food_metadata py_round_85)
  have t: "dict_get [(''transactions'', JArr [JObj ?txn])] ''transactions'' (JArr []) =
      JArr [JObj ?txn]"
    by (simp add: dict_get_def)
  show ?thesis
    by (simp add: categorize_batch_def t i)
qed

text \<open>The model branch is taken exactly when both handles are loaded, and the
  \<^verbatim>\<open>model_used\<close> field names the branch taken unless the classifier is loaded without
  the vectorizer.\<close>

lemma classify_paths:
  "classify e rt x =
     (case expense_classifier e of
        None \<Rightarrow> expense_fallback_path rt x
      | Some c \<Rightarrow>
          (case expense_vectorizer e of
             None \<Rightarrow> expense_fallback_path rt x
           | Some v \<Rightarrow> expense_ml_path c v x))"
  by (simp add: classify_def split: option.splits)

lemma model_used_branch:
  assumes "expense_classifier e = None \<or> expense_vectorizer e \<noteq> None"
  shows "model_used e =
     JStr (if expense_classifier e \<noteq> None \<and> expense_vectorizer e \<noteq> None
           then ''ml'' else ''fallback'')"
  using assms by (auto simp: model_used_def)

text \<open>
  C6. The branch taken by \<^verbatim>\<open>categorize_expense\<close> and \<^verbatim>\<open>categorize_batch\<close> is the model
  branch if and only if both the classifier and the vectorizer are loaded, but the
  \<^verbatim>\<open>model_used\<close> field looks at the classifier alone. When the vectorizer file exists and
  cannot be read, \<^verbatim>\<open>load_models\<close> leaves the classifier loaded and the vectorizer
  \<^verbatim>\<open>None\<close>; the request \<^verbatim>\<open>{"description": "Swiggy order delivered Rs 450"}\<close> is then
  answered by the keyword fallback (whatever the classifier is) and reported as
  \<^verbatim>\<open>model_used = ml\<close>, in the single and in the batch endpoint.
\<close>

theorem model_used_without_vectorizer:
  "load_models (vectorizer_unreadable c) = classifier_only c
   \<and> classify (classifier_only c) rt (JStr ''Swiggy order delivered Rs 450'') =
       expense_fallback_path rt (JStr ''Swiggy order delivered Rs 450'')
   \<and> categorize_expense (classifier_only c) rt
        (JObj [(''description'', JStr ''Swiggy order delivered Rs 450'')]) =
       (200, [(''category'', JStr ''Food & Dining''),
              (''confidence'', JNum 85),
              (''icon'', JStr ''restaurant''),
              (''color'', JStr ''#ef4444''),
              (''model_used'', JStr ''ml'')])
   \<and> categorize_batch (classifier_only c) rt
        (JObj [(''transactions'',
           JArr [JObj [(''id'', JStr ''txn1''),
                       (''description'', JStr ''Swiggy order delivered Rs 450'')]])]) =
       (200, [(''results'',
                 JArr [JObj [(''id'', JStr ''txn1''),
                             (''description'', JStr ''Swiggy order delivered Rs 450''),
                             (''category'', JStr ''Food & Dining''),
                             (''confidence'', JNum 85),
                             (''icon'', JStr ''restaurant''),
                             (''color'', JStr ''#ef4444'')]]),
              (''count'', JNum 1),
              (''model_used'', JStr ''ml'')])"
proof -
  have l: "load_models (vectorizer_unreadable c) = classifier_only c"
    by (simp add: load_models_def vectorizer_unreadable_def classifier_only_def load_one_def)
  have k: "classify (classifier_only c) rt (JStr ''Swiggy order delivered Rs 450'') =
       expense_fallback_path rt (JStr ''Swiggy order delivered Rs 450'')"
    by (simp add: classify_def classifier_only_def)
  have m: "model_used (classifier_only c) = JStr ''ml''"
    by (simp add: model_used_def classifier_only_def)
  show ?thesis
    using l k swiggy_response [OF k] swiggy_batch_response [OF k] by (simp add: m)
qed

theorem model_used_without_vectorizer_witness:
  "categorize_expense (load_models (vectorizer_unreadable sample_classifier)) no_parse
        (JObj [(''description'', JStr ''Swiggy order delivered Rs 450'')]) =
       (200, [(''category'', JStr ''Food & Dining''),
              (''confidence'', JNum 85),
              (''icon'', JStr ''restaurant''),
              (''color'', JStr ''#ef4444''),
              (''model_used'', JStr ''ml'')])"
  using model_used_without_vectorizer [of sample_classifier] by simp

lemma category_metadata:
  "map_of CATEGORY_METADATA ''Food & Dining'' = Some \<lparr>icon = ''restaurant'', color = ''#ef4444''\<rparr>"
  "map_of CATEGORY_METADATA ''Transportation'' = Some \<lparr>icon = ''directions_car'', color = ''#f97316''\<rparr>"
  "map_of CATEGORY_METADATA ''Shopping'' = Some \<lparr>icon = ''shopping_bag'', color = ''#8b5cf6''\<rparr>"
  "map_of CATEGORY_METADATA ''Bills & Utilities'' = Some \<lparr>icon = ''receipt_long'', color = ''#06b6d4''\<rparr>"
  "map_of CATEGORY_METADATA ''Entertainment'' = Some \<lparr>icon = ''movie'', color = ''#ec4899''\<rparr>"
  "map_of CATEGORY_METADATA ''Healthcare'' = Some \<lparr>icon = ''local_hospital'', color = ''#10b981''\<rparr>"
  "map_of CATEGORY_METADATA ''Education'' = Some \<lparr>icon = ''school'', color = ''#3b82f6''\<rparr>"
  "map_of CATEGORY_METADATA ''Travel'' = Some \<lparr>icon = ''flight'', color = ''#14b8a6''\<rparr>"
  "map_of CATEGORY_METADATA ''Others'' = Some \<lparr>icon = ''category'', color = ''#6b7280''\<rparr>"
  by (simp_all add: CATEGORY_METADATA_def)

text \<open>The keyword branch of the endpoint at a description whose category is known.\<close>

lemma fallback_endpoint_at:
  assumes "classify e rt (JStr s) = expense_fallback_path rt (JStr s)"
    and "map_of req ''description'' = Some (JStr s)" and "s \<noteq> []"
    and "get_category_fallback rt s = (cat, conf)"
    and "map_of CATEGORY_METADATA cat = Some m"
  shows "categorize_expense e rt (JObj req) =
       (200, [(''category'', JStr cat),
              (''confidence'', JNum (py_round (conf * 100) 2)),
              (''icon'', JStr (icon m)),
              (''color'', JStr (color m)),
              (''model_used'', model_used e)])"
proof -
  have d: "dict_get req ''description'' (JStr []) = JStr s"
    using assms(2) by (rule dict_get_present)
  show ?thesis
    using assms(3)
    by (simp add: categorize_expense_def d assms(1) assms(4) assms(5)
        expense_fallback_path_def others_metadata)
qed

lemma py_round_50: "py_round 50 2 = 50"
  by (simp add: py_round_def)

text \<open>The keyword branch of the endpoint, for every description.\<close>

lemma fallback_endpoint:
  assumes "classify e rt (JStr s) = expense_fallback_path rt (JStr s)"
    and "map_of req ''description'' = Some (JStr s)" and "s \<noteq> []"
  shows "\<exists>m. map_of CATEGORY_METADATA (fst (get_category_fallback rt s)) = Some m
     \<and> categorize_expense e rt (JObj req) =
       (200, [(''category'', JStr (fst (get_category_fallback rt s))),
              (''confidence'',
                 JNum (if fst (get_category_fallback rt s) = ''Others'' then 50 else 85)),
              (''icon'', JStr (icon m)),
              (''color'', JStr (color m)),
              (''model_used'', model_used e)])"
proof -
  note at = fallback_endpoint_at [OF assms]
  have "get_category_fallback rt s \<in>
     {(''Food & Dining'', 0.85), (''Transportation'', 0.85), (''Shopping'', 0.85),
      (''Bills & Utilities'', 0.85), (''Entertainment'', 0.85), (''Healthcare'', 0.85),
      (''Education'', 0.85), (''Travel'', 0.85), (''Others'', 0.50)}"
    by (rule fallback_cases)
  then consider
      "get_category_fallback rt s = (''Food & Dining'', 0.85)"
    | "get_category_fallback rt s = (''Transportation'', 0.85)"
    | "get_category_fallback rt s = (''Shopping'', 0.85)"
    | "get_category_fallback rt s = (''Bills & Utilities'', 0.85)"
    | "get_category_fallback rt s = (''Entertainment'', 0.85)"
    | "get_category_fallback rt s = (''Healthcare'', 0.85)"
    | "get_category_fallback rt s = (''Education'', 0.85)"
    | "get_category_fallback rt s = (''Travel'', 0.85)"
    | "get_category_fallback rt s = (''Others'', 0.50)"
    by blast
  then show ?thesis
  proof cases
    case 1
    from at [OF 1 category_metadata(1)] show ?thesis
      by (simp add: 1 category_metadata(1) py_round_85)
  next
    case 2
    from at [OF 2 category_metadata(2)] show ?thesis
      by (simp add: 2 category_metadata(2) py_round_85)
  next
    case 3
    from at [OF 3 category_metadata(3)] show ?thesis
      by (simp add: 3 category_metadata(3) py_round_85)
  next
    case 4
    from at [OF 4 category_metadata(4)] show ?thesis
      by (simp add: 4 category_metadata(4) py_round_85)
  next
    case 5
    from at [OF 5 category_metadata(5)] show ?thesis
      by (simp add: 5 category_metadata(5) py_round_85)
  next
    case 6
    from at [OF 6 category_metadata(6)] show ?thesis
      by (simp add: 6 category_metadata(6) py_round_85)
  next
    case 7
    from at [OF 7 category_metadata(7)] show ?thesis
      by (simp add: 7 category_metadata(7) py_round_85)
  next
    case 8
    from at [OF 8 category_metadata(8)] show ?thesis
      by (simp add: 8 category_metadata(8) py_round_85)
  next
    case 9
    from at [OF 9 category_metadata(9)] show ?thesis
      by (simp add: 9 category_metadata(9) py_round_50)
  qed
qed

lemma lower_char_letters:
  "map lower_char ''ABCDEFGHIJKLMNOPQRSTUVWXYZ'' = ''abcdefghijklmnopqrstuvwxyz''"
  by (simp add: lower_char_def)

lemma lower_char_other: "c \<notin> set ''ABCDEFGHIJKLMNOPQRSTUVWXYZ'' \<Longrightarrow> lower_char c = c"
  by (simp add: lower_char_def)

lemma netflix_fallback:
  "get_category_fallback rt ''Netflix subscription'' = (''Entertainment'', 0.85)"
  by (simp add: get_category_fallback_def lower_def is_ascii_def lower_char_def any_in_def
      food_keywords_def transport_keywords_def shopping_keywords_def bills_keywords_def
      entertainment_keywords_def)

lemma is_ascii_iff: "is_ascii s \<longleftrightarrow> list_all (\<lambda>c. of_char c < (128::nat)) s"
proof -
  have "\<not> digit7 c \<longleftrightarrow> of_char c < (128::nat)" for c
    by (cases c) simp
  then show ?thesis
    by (simp add: is_ascii_def)
qed

lemma kelvin_fallback:
  "get_category_fallback kelvin_runtime (kelvin_sign @ ''FC bucket'') = (''Food & Dining'', 0.85)"
  by (simp add: get_category_fallback_def lower_def is_ascii_def kelvin_sign_def
      kelvin_runtime_def lower_char_def any_in_def food_keywords_def)

text \<open>
  C7. When the classifier or the vectorizer is not loaded,
  \<^verbatim>\<open>categorize_expense("Swiggy order delivered Rs 450")\<close> returns category
  \<^verbatim>\<open>Food & Dining\<close> with confidence 85.0 and icon \<^verbatim>\<open>restaurant\<close>, and every request
  with a non-empty description string is answered 200 with the category of
  \<^verbatim>\<open>get_category_fallback\<close>, its metadata, and confidence 85.0, or 50.0 for \<^verbatim>\<open>Others\<close>.
  For every description, \<^verbatim>\<open>get_category_fallback\<close> lower-cases it and returns the
  category of the first row of the priority table (Food & Dining, Transportation,
  Shopping, Bills & Utilities, Entertainment, Healthcare, Education, Travel) one of whose
  keywords is a substring of it, with confidence 0.85, and \<^verbatim>\<open>Others\<close> with confidence
  0.50 when no row matches. Lower-casing maps \<^verbatim>\<open>A\<close> to \<^verbatim>\<open>Z\<close> to \<^verbatim>\<open>a\<close> to \<^verbatim>\<open>z\<close> and
  leaves every other character of a pure ASCII description; on any other description it
  is the Unicode case mapping of the runtime, whatever that is.
\<close>

theorem keyword_fallback:
  assumes "expense_classifier e = None \<or> expense_vectorizer e = None"
    and "map_of req ''description'' = Some (JStr s)" and "s \<noteq> []"
  shows "categorize_expense e rt (JObj [(''description'', JStr ''Swiggy order delivered Rs 450'')]) =
       (200, [(''category'', JStr ''Food & Dining''),
              (''confidence'', JNum 85),
              (''icon'', JStr ''restaurant''),
              (''color'', JStr ''#ef4444''),
              (''model_used'', model_used e)])
   \<and> (\<exists>m. map_of CATEGORY_METADATA (fst (get_category_fallback rt s)) = Some m
        \<and> categorize_expense e rt (JObj req) =
          (200, [(''category'', JStr (fst (get_category_fallback rt s))),
                 (''confidence'',
                    JNum (if fst (get_category_fallback rt s) = ''Others'' then 50 else 85)),
                 (''icon'', JStr (icon m)),
                 (''color'', JStr (color m)),
                 (''model_used'', model_used e)]))
   \<and> get_category_fallback rt d =
       (case find (\<lambda>row. \<exists>kw \<in> set (snd row). \<exists>p q. lower rt d = p @ kw @ q) keyword_table of
          Some row \<Rightarrow> (fst row, 0.85)
        | None \<Rightarrow> (''Others'', 0.50))
   \<and> map fst keyword_table =
       [''Food & Dining'', ''Transportation'', ''Shopping'', ''Bills & Utilities'',
        ''Entertainment'', ''Healthcare'', ''Education'', ''Travel'']
   \<and> lower rt d =
       (if list_all (\<lambda>c. of_char c < (128::nat)) d then map lower_char d
        else unicode_lower rt d)
   \<and> map lower_char ''ABCDEFGHIJKLMNOPQRSTUVWXYZ'' = ''abcdefghijklmnopqrstuvwxyz''
   \<and> (c \<in> set ''ABCDEFGHIJKLMNOPQRSTUVWXYZ'' \<or> lower_char c = c)"
proof -
  have k: "classify e rt x = expense_fallback_path rt x" for x
    using assms(1) by (auto simp: classify_def)
  have 1: "categorize_expense e rt
       (JObj [(''description'', JStr ''Swiggy order delivered Rs 450'')]) =
       (200, [(''category'', JStr ''Food & Dining''),
              (''confidence'', JNum 85),
              (''icon'', JStr ''restaurant''),
              (''color'', JStr ''#ef4444''),
              (''model_used'', model_used e)])"
    using k by (rule swiggy_response)
  have 2: "\<exists>m. map_of CATEGORY_METADATA (fst (get_category_fallback rt s)) = Some m
        \<and> categorize_expense e rt (JObj req) =
          (200, [(''category'', JStr (fst (get_category_fallback rt s))),
                 (''confidence'',
                    JNum (if fst (get_category_fallback rt s) = ''Others'' then 50 else 85)),
                 (''icon'', JStr (icon m)),
                 (''color'', JStr (color m)),
                 (''model_used'', model_used e)])"
    using k assms(2) assms(3) by (rule fallback_endpoint)
  have 3: "get_category_fallback rt d =
       (case find (\<lambda>row. \<exists>kw \<in> set (snd row). \<exists>p q. lower rt d = p @ kw @ q) keyword_table of
          Some row \<Rightarrow> (fst row, 0.85)
        | None \<Rightarrow> (''Others'', 0.50))"
    by (simp only: fallback_first_match spec_category_fallback_def any_in_iff)
  have 4: "map fst keyword_table =
       [''Food & Dining'', ''Transportation'', ''Shopping'', ''Bills & Utilities'',
        ''Entertainment'', ''Healthcare'', ''Education'', ''Travel'']"
    by (simp add: keyword_table_def)
  have 5: "lower rt d =
       (if list_all (\<lambda>c. of_char c < (128::nat)) d then map lower_char d
        else unicode_lower rt d)"
    by (simp only: lower_def is_ascii_iff)
  have 6: "map lower_char ''ABCDEFGHIJKLMNOPQRSTUVWXYZ'' = ''abcdefghijklmnopqrstuvwxyz''"
    by (rule lower_char_letters)
  have 7: "c \<in> set ''ABCDEFGHIJKLMNOPQRSTUVWXYZ'' \<or> lower_char c = c"
    using lower_char_other [of c] by blast
  show ?thesis
    using 1 2 3 4 5 6 7 by blast
qed

theorem keyword_fallback_witness:
  "categorize_expense no_models no_parse
       (JObj [(''description'', JStr ''Netflix subscription'')]) =
     (200, [(''category'', JStr ''Entertainment''),
            (''confidence'', JNum 85),
            (''icon'', JStr ''movie''),
            (''color'', JStr ''#ec4899''),
            (''model_used'', JStr ''fallback'')])
   \<and> categorize_expense no_models kelvin_runtime
       (JObj [(''description'', JStr (kelvin_sign @ ''FC bucket''))]) =
     (200, [(''category'', JStr ''Food & Dining''),
            (''confidence'', JNum 85),
            (''icon'', JStr ''restaurant''),
            (''color'', JStr ''#ef4444''),
            (''model_used'', JStr ''fallback'')])"
proof -
  have h: "expense_classifier no_models = None \<or> expense_vectorizer no_models = None"
    by (simp add: no_models_def)
  have m: "model_used no_models = JStr ''fallback''"
    by (simp add: model_used_def no_models_def)
  have n: "''Netflix subscription'' \<noteq> []" "kelvin_sign @ ''FC bucket'' \<noteq> []"
    by simp_all
  have a: "map_of [(''description'', JStr ''Netflix subscription'')] ''description'' =
      Some (JStr ''Netflix subscription'')"
    by simp
  have b: "map_of [(''description'', JStr (kelvin_sign @ ''FC bucket''))] ''description'' =
      Some (JStr (kelvin_sign @ ''FC bucket''))"
    by simp
  from keyword_fallback [OF h a n(1), of no_parse]
  have 1: "categorize_expense no_models no_parse
       (JObj [(''description'', JStr ''Netflix subscription'')]) =
     (200, [(''category'', JStr ''Entertainment''),
            (''confidence'', JNum 85),
            (''icon'', JStr ''movie''),
            (''color'', JStr ''#ec4899''),
            (''model_used'', JStr ''fallback'')])"
    by (auto simp: netflix_fallback category_metadata(5) m)
  from keyword_fallback [OF h b n(2), of kelvin_runtime]
  have 2: "categorize_expense no_models kelvin_runtime
       (JObj [(''description'', JStr (kelvin_sign @ ''FC bucket''))]) =
     (200, [(''category'', JStr ''Food & Dining''),
            (''confidence'', JNum 85),
            (''icon'', JStr ''restaurant''),
            (''color'', JStr ''#ef4444''),
            (''model_used'', JStr ''fallback'')])"
    by (auto simp: kelvin_fallback category_metadata(1) m)
  show ?thesis
    using 1 2 by (rule conjI)
qed

text \<open>
  C10. \<^verbatim>\<open>get_category_fallback\<close> is defined on every string (lower-casing and the
  substring tests never raise). Its result is one of the eight keyword categories with
  confidence 0.85, or \<^verbatim>\<open>Others\<close> with confidence 0.50. The category is always a key of
  the ten-entry table \<^verbatim>\<open>CATEGORY_METADATA\<close>, so the default of the metadata lookup is
  never used for it; \<^verbatim>\<open>Personal Care\<close> is a key of the table and is never returned.
\<close>

theorem fallback_categories:
  "get_category_fallback rt d \<in>
     {(''Food & Dining'', 0.85), (''Transportation'', 0.85), (''Shopping'', 0.85),
      (''Bills & Utilities'', 0.85), (''Entertainment'', 0.85), (''Healthcare'', 0.85),
      (''Education'', 0.85), (''Travel'', 0.85), (''Others'', 0.50)}
   \<and> fst (get_category_fallback rt d) \<in> set (map fst CATEGORY_METADATA)
   \<and> map_of CATEGORY_METADATA (fst (get_category_fallback rt d)) \<noteq> None
   \<and> fst (get_category_fallback rt d) \<noteq> ''Personal Care''
   \<and> ''Personal Care'' \<in> set (map fst CATEGORY_METADATA)
   \<and> length CATEGORY_METADATA = 10"
proof -
  have c: "get_category_fallback rt d \<in>
     {(''Food & Dining'', 0.85), (''Transportation'', 0.85), (''Shopping'', 0.85),
      (''Bills & Utilities'', 0.85), (''Entertainment'', 0.85), (''Healthcare'', 0.85),
      (''Education'', 0.85), (''Travel'', 0.85), (''Others'', 0.50)}"
    by (rule fallback_cases)
  then have f: "fst (get_category_fallback rt d) \<in>
     {''Food & Dining'', ''Transportation'', ''Shopping'', ''Bills & Utilities'',
      ''Entertainment'', ''Healthcare'', ''Education'', ''Travel'', ''Others''}"
    by auto
  have 1: "fst (get_category_fallback rt d) \<in> set (map fst CATEGORY_METADATA)"
    using f by (auto simp: CATEGORY_METADATA_def)
  have 2: "map_of CATEGORY_METADATA (fst (get_category_fallback rt d)) \<noteq> None"
    using f by (auto simp: CATEGORY_METADATA_def)
  have 3: "fst (get_category_fallback rt d) \<noteq> ''Personal Care''"
    using f by auto
  have 4: "''Personal Care'' \<in> set (map fst CATEGORY_METADATA)"
    by (simp add: CATEGORY_METADATA_def)
  have 5: "length CATEGORY_METADATA = 10"
    by (simp add: CATEGORY_METADATA_def)
  show ?thesis
    using c 1 2 3 4 5 by blast
qed

theorem fallback_categories_witness:
  "get_category_fallback no_parse ''Swiggy order delivered Rs 450'' = (''Food & Dining'', 0.85)
   \<and> map_of CATEGORY_METADATA (fst (get_category_fallback no_parse ''Swiggy order delivered Rs 450''))
       \<noteq> None
   \<and> length CATEGORY_METADATA = 10"
  using fallback_categories [of no_parse "''Swiggy order delivered Rs 450''"]
    swiggy_fallback [of no_parse]
  by simp

end
